theory Spec2Isabelle
  imports Complex_Main
begin

section \<open>Python values and failures\<close>

text \<open>
  The notebooks are Python. Every exception the modelled code can raise by itself is a
  constructor of \<open>error\<close>; \<open>LibraryError\<close> stands for a failure raised inside a library
  call. A computation that may raise returns \<open>error + 'a\<close>, with \<open>Inl\<close> the exception.
\<close>

datatype error =
    ZeroDivisionError
  | AssertionError string
  | IndexError
  | KeyError
  | AttributeError
  | UnboundLocalError
  | TypeError
  | LibraryError string

text \<open>\<open>range(n)\<close>: the integers \<open>0, ..., n - 1\<close>, empty when \<open>n \<le> 0\<close>.\<close>

definition py_range :: "int \<Rightarrow> int list" where
  "py_range n = map int [0..<nat n]"

text \<open>
  A slice bound of \<open>xs[s:f]\<close>: a negative bound counts from the end, and every bound is
  clipped to \<open>0 .. len(xs)\<close>.
\<close>

definition slice_index :: "nat \<Rightarrow> int \<Rightarrow> nat" where
  "slice_index n i = (if i < 0 then nat (max 0 (int n + i)) else min n (nat i))"

definition py_slice :: "'a list \<Rightarrow> int \<Rightarrow> int \<Rightarrow> 'a list" where
  "py_slice xs s f =
     (let lo = slice_index (length xs) s; hi = slice_index (length xs) f
      in take (hi - lo) (drop lo xs))"

text \<open>\<open>xs[i]\<close> on a list: a negative index counts from the end, an index out of range raises.\<close>

definition py_get :: "'a list \<Rightarrow> int \<Rightarrow> error + 'a" where
  "py_get xs i =
     (let n = int (length xs)
      in if i < - n \<or> n \<le> i then Inl IndexError
         else Inr (xs ! nat (if i < 0 then n + i else i)))"

text \<open>
  \<open>math.ceil(num / batch_size)\<close> on two Python ints. The quotient is a float; for
  operands below \<open>2^53\<close> (every list length that fits in memory) its ceiling is the
  ceiling of the exact quotient, which integer division computes. Division by zero raises.
\<close>

definition math_ceil_div :: "int \<Rightarrow> int \<Rightarrow> error + int" where
  "math_ceil_div num d = (if d = 0 then Inl ZeroDivisionError else Inr (- ((- num) div d)))"

section \<open>b1-transition: batching\<close>

text \<open>
  The body of \<open>for i in range(num_batches - 1)\<close> in \<open>get_batches\<close>, as a recursion over
  the indices still to visit; the accumulator is the pair \<open>(batches_x, batches_y)\<close>.
\<close>

fun batches_loop ::
  "'a list \<Rightarrow> 'b list \<Rightarrow> int \<Rightarrow> int \<Rightarrow> int list \<Rightarrow> 'a list list \<times> 'b list list
     \<Rightarrow> 'a list list \<times> 'b list list" where
  "batches_loop xs ys batch_size num [] acc = acc"
| "batches_loop xs ys batch_size num (i # rest) (batches_x, batches_y) =
     (let sidx = batch_size * i;
          fidx = batch_size * (i + 1);
          fidx = min fidx num
      in batches_loop xs ys batch_size num rest
           (batches_x @ [py_slice xs sidx fidx], batches_y @ [py_slice ys sidx fidx]))"

definition get_batches ::
  "'a list \<Rightarrow> 'b list \<Rightarrow> int \<Rightarrow> error + ('a list list \<times> 'b list list)" where
  "get_batches xs ys batch_size =
     (let num = int (length xs)
      in case math_ceil_div num batch_size of
           Inl e \<Rightarrow> Inl e
         | Inr num_batches \<Rightarrow>
             Inr (batches_loop xs ys batch_size num (py_range (num_batches - 1)) ([], [])))"

section \<open>b1-transition: graph construction\<close>

text \<open>
  A DGL graph as far as the notebooks use it: a number of vertices, numbered from 0, and
  the directed edges as parallel lists of source and destination ids.
\<close>

record dgl_graph =
  num_nodes :: nat
  edge_src :: "int list"
  edge_dst :: "int list"

definition graph_edges :: "dgl_graph \<Rightarrow> (int \<times> int) list" where
  "graph_edges g = zip (edge_src g) (edge_dst g)"

definition max_id :: "int list \<Rightarrow> int" where
  "max_id ids = fold max ids (- 1)"

text \<open>
  Modelled from the spec: the library constructor \<open>dgl.graph((u, v))\<close> is not part of the
  repository; the spec delegates the invariant "edges reference valid vertex indices"
  to it. It takes the source and destination id arrays, rejects arrays of different
  lengths and negative ids, and creates as many vertices as the largest id plus one.
\<close>

definition dgl_graph :: "int list \<Rightarrow> int list \<Rightarrow> error + dgl_graph" where
  "dgl_graph u v =
     (if length u \<noteq> length v then Inl (LibraryError ''DGLError'')
      else if list_ex (\<lambda>i. i < 0) (u @ v) then Inl (LibraryError ''DGLError'')
      else Inr \<lparr>num_nodes = nat (max_id (u @ v) + 1), edge_src = u, edge_dst = v\<rparr>)"

text \<open>
  \<open>make_stargazer_graph(index)\<close>. The global dictionary \<open>stargazer_edges\<close> maps the decimal
  string of a graph index to that graph's list of \<open>[a, b]\<close> pairs; it is keyed here by the
  index itself. A missing key raises. \<open>np.array\<close> of an empty list is one-dimensional, so
  the column slice \<open>edges[:,0]\<close> raises on it.
\<close>

definition make_stargazer_graph ::
  "(nat \<rightharpoonup> (int \<times> int) list) \<Rightarrow> nat \<Rightarrow> error + dgl_graph" where
  "make_stargazer_graph stargazer_edges index =
     (case stargazer_edges index of
        None \<Rightarrow> Inl KeyError
      | Some edges \<Rightarrow>
          if edges = [] then Inl IndexError
          else let src = map fst edges;
                   dst = map snd edges;
                   u = src @ dst;
                   v = dst @ src
               in dgl_graph u v)"

text \<open>
  \<open>astype(int)\<close> on a float array truncates towards zero. \<open>make_webmluser_graph(edges)\<close>
  receives the two-column float array that \<open>np.loadtxt\<close> read from the edge file.
\<close>

definition astype_int :: "real \<Rightarrow> int" where
  "astype_int x = (if 0 \<le> x then \<lfloor>x\<rfloor> else \<lceil>x\<rceil>)"

definition make_webmluser_graph :: "(real \<times> real) list \<Rightarrow> error + dgl_graph" where
  "make_webmluser_graph edges =
     (let src = map (astype_int \<circ> fst) edges;
          dst = map (astype_int \<circ> snd) edges;
          u = src @ dst;
          v = dst @ src
      in dgl_graph u v)"

section \<open>b3-vgae: the variational graph auto-encoder\<close>

text \<open>
  A two-dimensional float tensor is a list of rows. Floats are modelled by the reals:
  rounding, infinities and NaN are outside the model. Arithmetic on tensors is
  elementwise on operands of one shape, which is what the encoder's two outputs and
  the noise drawn by \<open>randn_like\<close> have; broadcasting is not modelled.
\<close>

type_synonym tensor = "real list list"

definition t_add :: "tensor \<Rightarrow> tensor \<Rightarrow> tensor" where
  "t_add a b = map2 (map2 (+)) a b"

definition t_mul :: "tensor \<Rightarrow> tensor \<Rightarrow> tensor" where
  "t_mul a b = map2 (map2 (*)) a b"

definition t_exp :: "tensor \<Rightarrow> tensor" where
  "t_exp a = map (map exp) a"

text \<open>\<open>t.clamp(max=m)\<close>: every component above \<open>m\<close> is replaced by \<open>m\<close>.\<close>

definition clamp_max :: "tensor \<Rightarrow> real \<Rightarrow> tensor" where
  "clamp_max t m = map (map (\<lambda>x. min x m)) t"

definition MAX_LOGVAR :: real where
  "MAX_LOGVAR = 10"

text \<open>
  The part of a \<open>VGAE\<close> object that its methods read and write: the \<open>training\<close> flag of
  \<open>torch.nn.Module\<close> and the attributes \<open>__mu__\<close> and \<open>__logvar__\<close>, which do not exist until
  \<open>encode\<close> has run. A new module is in training mode.
\<close>

record vgae =
  training :: bool
  attr_mu :: "tensor option"
  attr_logvar :: "tensor option"

definition VGAE_init :: vgae where
  "VGAE_init = \<lparr>training = True, attr_mu = None, attr_logvar = None\<rparr>"

text \<open>
  \<open>VGAE.reparametrize\<close>. \<open>torch.randn_like\<close> is the library's normal sampler: given the state
  of the random generator and a tensor it returns noise of that tensor's shape and the
  advanced generator state. It is a parameter.
\<close>

definition reparametrize ::
  "('r \<Rightarrow> tensor \<Rightarrow> tensor \<times> 'r) \<Rightarrow> vgae \<Rightarrow> tensor \<Rightarrow> tensor \<Rightarrow> 'r \<Rightarrow> tensor \<times> 'r" where
  "reparametrize randn_like self mu logvar rng =
     (if training self
      then (let (eps, rng') = randn_like rng logvar
            in (t_add mu (t_mul eps (t_exp logvar)), rng'))
      else (mu, rng))"

text \<open>
  \<open>VGAE.encode\<close>: run the encoder (a constructor argument of the class, here a function
  from the call's arguments to the pair of its outputs), store both outputs, replace
  the stored log-variance by its clamped value, and reparametrize from the stored values.
\<close>

definition VGAE_encode ::
  "('r \<Rightarrow> tensor \<Rightarrow> tensor \<times> 'r) \<Rightarrow> ('a \<Rightarrow> tensor \<times> tensor) \<Rightarrow> vgae \<Rightarrow> 'a \<Rightarrow> 'r
     \<Rightarrow> tensor \<times> vgae \<times> 'r" where
  "VGAE_encode randn_like encoder self args rng =
     (let (mu, logvar) = encoder args;
          self = self\<lparr>attr_mu := Some mu, attr_logvar := Some logvar\<rparr>;
          self = self\<lparr>attr_logvar := Some (clamp_max (the (attr_logvar self)) MAX_LOGVAR)\<rparr>;
          (z, rng') = reparametrize randn_like self (the (attr_mu self)) (the (attr_logvar self)) rng
      in (z, self, rng'))"

text \<open>
  \<open>VGAE.kl_loss(mu=None, logvar=None)\<close>. Its first two statements choose the operands:
  a missing argument is read from the object (an \<open>AttributeError\<close> when \<open>encode\<close> has
  never run), a passed \<open>logvar\<close> is clamped, a passed \<open>mu\<close> is taken as it is.
\<close>

definition kl_operands ::
  "vgae \<Rightarrow> tensor option \<Rightarrow> tensor option \<Rightarrow> error + (tensor \<times> tensor)" where
  "kl_operands self mu logvar =
     (case (case mu of
              None \<Rightarrow> (case attr_mu self of None \<Rightarrow> Inl AttributeError | Some m \<Rightarrow> Inr m)
            | Some m \<Rightarrow> Inr m) of
        Inl e \<Rightarrow> Inl e
      | Inr mu' \<Rightarrow>
          (case (case logvar of
                   None \<Rightarrow> (case attr_logvar self of None \<Rightarrow> Inl AttributeError | Some l \<Rightarrow> Inr l)
                 | Some l \<Rightarrow> Inr (clamp_max l MAX_LOGVAR)) of
             Inl e \<Rightarrow> Inl e
           | Inr logvar' \<Rightarrow> Inr (mu', logvar')))"

text \<open>\<open>torch.mean\<close> of a vector (the mean of no numbers is NaN in torch, 0 here).\<close>

definition t_mean :: "real list \<Rightarrow> real" where
  "t_mean xs = sum_list xs / real (length xs)"

definition kl_loss :: "vgae \<Rightarrow> tensor option \<Rightarrow> tensor option \<Rightarrow> error + real" where
  "kl_loss self mu logvar =
     (case kl_operands self mu logvar of
        Inl e \<Rightarrow> Inl e
      | Inr (mu', logvar') \<Rightarrow>
          Inr (- 0.5 * t_mean (map sum_list
                 (map2 (map2 (\<lambda>m l. 1 + l - m ^ 2 - exp l)) mu' logvar'))))"

text \<open>
  What the notebook does with a \<open>VGAE\<close> object: switch it between training and evaluation
  mode (\<open>model.train()\<close>, \<open>model.eval()\<close>) and call \<open>encode\<close>. A call of \<open>encode\<close> is given by
  the pair its encoder returns. \<open>vgae_calls\<close> runs a sequence of such calls.
\<close>

datatype vgae_call = Train | Eval | Encode "tensor \<times> tensor"

fun apply_call ::
  "('r \<Rightarrow> tensor \<Rightarrow> tensor \<times> 'r) \<Rightarrow> vgae \<times> 'r \<Rightarrow> vgae_call \<Rightarrow> vgae \<times> 'r" where
  "apply_call randn_like (self, rng) Train = (self\<lparr>training := True\<rparr>, rng)"
| "apply_call randn_like (self, rng) Eval = (self\<lparr>training := False\<rparr>, rng)"
| "apply_call randn_like (self, rng) (Encode out) =
     snd (VGAE_encode randn_like (\<lambda>_. out) self () rng)"

definition vgae_calls ::
  "('r \<Rightarrow> tensor \<Rightarrow> tensor \<times> 'r) \<Rightarrow> vgae \<times> 'r \<Rightarrow> vgae_call list \<Rightarrow> vgae \<times> 'r" where
  "vgae_calls randn_like s calls = foldl (apply_call randn_like) s calls"

text \<open>Every component of a tensor is at most \<open>m\<close>.\<close>

definition components_le :: "tensor \<Rightarrow> real \<Rightarrow> bool" where
  "components_le t m = (\<forall>row \<in> set t. \<forall>x \<in> set row. x \<le> m)"

text \<open>The encoder output of the last \<open>encode\<close> in a sequence of calls, if there is one.\<close>

fun last_encode :: "vgae_call list \<Rightarrow> (tensor \<times> tensor) option" where
  "last_encode [] = None"
| "last_encode (Encode out # calls) =
     (case last_encode calls of None \<Rightarrow> Some out | Some later \<Rightarrow> Some later)"
| "last_encode (_ # calls) = last_encode calls"

text \<open>The object after a sequence of calls on a newly constructed \<open>VGAE\<close>.\<close>

definition vgae_after ::
  "('r \<Rightarrow> tensor \<Rightarrow> tensor \<times> 'r) \<Rightarrow> 'r \<Rightarrow> vgae_call list \<Rightarrow> vgae" where
  "vgae_after randn_like rng calls = fst (vgae_calls randn_like (VGAE_init, rng) calls)"

section \<open>b3-vgae: the graph auto-encoder's link-prediction test\<close>

text \<open>
  An edge index is a \<open>2 \<times> E\<close> integer tensor; it is modelled by the list of its \<open>E\<close>
  columns, so \<open>edge_index[0]\<close> is the list of first components, \<open>edge_index[1]\<close> the list
  of second components and \<open>edge_index.size(1)\<close> the length.
\<close>

type_synonym edge_index = "(int \<times> int) list"

definition new_ones :: "nat \<Rightarrow> real list" where
  "new_ones n = replicate n 1"

definition new_zeros :: "nat \<Rightarrow> real list" where
  "new_zeros n = replicate n 0"

definition torch_sigmoid :: "real \<Rightarrow> real" where
  "torch_sigmoid x = 1 / (1 + exp (- x))"

text \<open>
  \<open>z[idx]\<close> for an index tensor: the rows of \<open>z\<close> at the given positions; a negative
  position counts from the end, a position outside \<open>-n .. n - 1\<close> raises.
\<close>

fun index_rows :: "tensor \<Rightarrow> int list \<Rightarrow> error + tensor" where
  "index_rows z [] = Inr []"
| "index_rows z (i # is) =
     (let n = int (length z)
      in if i < - n \<or> n \<le> i then Inl IndexError
         else (case index_rows z is of
                 Inl e \<Rightarrow> Inl e
               | Inr rows \<Rightarrow> Inr (z ! nat (if i < 0 then n + i else i) # rows)))"

text \<open>\<open>InnerProductDecoder.forward(z, edge_index, sigmoid)\<close>.\<close>

definition InnerProductDecoder_forward :: "tensor \<Rightarrow> edge_index \<Rightarrow> bool \<Rightarrow> error + real list" where
  "InnerProductDecoder_forward z edge_index sigmoid =
     (case index_rows z (map fst edge_index) of
        Inl e \<Rightarrow> Inl e
      | Inr rows0 \<Rightarrow>
          (case index_rows z (map snd edge_index) of
             Inl e \<Rightarrow> Inl e
           | Inr rows1 \<Rightarrow>
               (let val = map sum_list (t_mul rows0 rows1)
                in Inr (if sigmoid then map torch_sigmoid val else val))))"

text \<open>
  \<open>GAE.test(z, pos_edge_index, neg_edge_index)\<close>. The decoder is a constructor argument of
  \<open>GAE\<close>; \<open>roc_auc_score\<close> and \<open>average_precision_score\<close> are library functions. All three
  are parameters and may raise.
\<close>

definition GAE_test ::
  "(tensor \<Rightarrow> edge_index \<Rightarrow> bool \<Rightarrow> error + real list)
     \<Rightarrow> (real list \<Rightarrow> real list \<Rightarrow> error + real) \<Rightarrow> (real list \<Rightarrow> real list \<Rightarrow> error + real)
     \<Rightarrow> tensor \<Rightarrow> edge_index \<Rightarrow> edge_index \<Rightarrow> error + (real \<times> real)" where
  "GAE_test decoder roc_auc_score average_precision_score z pos_edge_index neg_edge_index =
     (let pos_y = new_ones (length pos_edge_index);
          neg_y = new_zeros (length neg_edge_index);
          y = pos_y @ neg_y
      in case decoder z pos_edge_index True of
           Inl e \<Rightarrow> Inl e
         | Inr pos_pred \<Rightarrow>
             (case decoder z neg_edge_index True of
                Inl e \<Rightarrow> Inl e
              | Inr neg_pred \<Rightarrow>
                  (let pred = pos_pred @ neg_pred
                   in case roc_auc_score y pred of
                        Inl e \<Rightarrow> Inl e
                      | Inr auc \<Rightarrow>
                          (case average_precision_score y pred of
                             Inl e \<Rightarrow> Inl e
                           | Inr ap \<Rightarrow> Inr (auc, ap)))))"

section \<open>What a run can change outside the Python heap\<close>

text \<open>
  The notebooks print, show figures inline, draw from Python's \<open>random\<close> module and, in
  the b3 notebook, touch files. \<open>world\<close> holds these: the files by path, the figures
  shown so far, the lines printed so far and the number of values drawn from \<open>random\<close>.
  A printed line keeps the numbers it was formatted from.
\<close>

record ig_graph =
  vcount :: nat
  ig_edges :: "(int \<times> int) list"
  vs_color :: "(int \<times> int \<times> int) list"

datatype file_content =
    Rendering ig_graph
  | EventLog "(string \<times> real \<times> int) list"

datatype printed =
    Text string
  | EpochLoss int real
  | EpochAccuracy int real real
  | EpochMetrics int real real

record world =
  files :: "string \<rightharpoonup> file_content"
  displayed :: "ig_graph list"
  stdout :: "printed list"
  random_pos :: nat

definition py_print :: "printed \<Rightarrow> world \<Rightarrow> world" where
  "py_print line w = w\<lparr>stdout := stdout w @ [line]\<rparr>"

section \<open>b3-vgae: plotting a graph\<close>

text \<open>
  The fields of a PyG \<open>Data\<close> object that \<open>plot\<close> reads. \<open>edge_index\<close> and \<open>y\<close> may be \<open>None\<close>.
\<close>

record pyg_data =
  data_num_nodes :: nat
  data_edge_index :: "edge_index option"
  data_y :: "int list option"

text \<open>
  The library calls of \<open>plot\<close> that can fail, as parameters: \<open>g.add_edges(edges)\<close> on a graph
  of \<open>n\<close> vertices; setting the vertex colours, laying the graph out and \<open>ig.plot\<close> writing
  it to a file, taken as one step; \<open>Image.open\<close> on the written file. Each returns the
  exception it raises, if any. \<open>lib_randint k\<close> is the value of the \<open>k\<close>-th draw
  \<open>random.randint(0, 255)\<close> of the session.
\<close>

record plot_lib =
  lib_add_edges :: "nat \<Rightarrow> (int \<times> int) list \<Rightarrow> error option"
  lib_ig_plot :: "ig_graph \<Rightarrow> error option"
  lib_image_open :: "file_content \<Rightarrow> error option"
  lib_randint :: "nat \<Rightarrow> int"

text \<open>
  \<open>len(np.unique(data.y))\<close>: the number of distinct labels; \<open>np.unique(None)\<close> is an array
  of one element.
\<close>

definition n_classes :: "int list option \<Rightarrow> nat" where
  "n_classes y = (case y of None \<Rightarrow> 1 | Some ys \<Rightarrow> length (remdups ys))"

text \<open>
  The list comprehension drawing one colour per class: three draws each, left to right,
  starting at draw number \<open>pos\<close>.
\<close>

definition draw_colours :: "plot_lib \<Rightarrow> nat \<Rightarrow> nat \<Rightarrow> (int \<times> int \<times> int) list" where
  "draw_colours lib pos n =
     map (\<lambda>i. (lib_randint lib (pos + 3 * i), lib_randint lib (pos + 3 * i + 1),
                lib_randint lib (pos + 3 * i + 2))) [0..<n]"

text \<open>\<open>[colours[cls] for cls in data.y]\<close>: iterating \<open>None\<close> raises, and so does a bad index.\<close>

fun colours_of :: "(int \<times> int \<times> int) list \<Rightarrow> int list \<Rightarrow> error + (int \<times> int \<times> int) list" where
  "colours_of colours [] = Inr []"
| "colours_of colours (cls # rest) =
     (case py_get colours cls of
        Inl e \<Rightarrow> Inl e
      | Inr c \<Rightarrow> (case colours_of colours rest of Inl e \<Rightarrow> Inl e | Inr cs \<Rightarrow> Inr (c # cs)))"

definition vertex_colours ::
  "(int \<times> int \<times> int) list \<Rightarrow> int list option \<Rightarrow> error + (int \<times> int \<times> int) list" where
  "vertex_colours colours y =
     (case y of None \<Rightarrow> Inl TypeError | Some ys \<Rightarrow> colours_of colours ys)"

text \<open>
  \<open>plot(data, outfile)\<close>. The result is the exception raised, if any, and the world after
  the call.
\<close>

definition plot :: "plot_lib \<Rightarrow> pyg_data \<Rightarrow> string \<Rightarrow> world \<Rightarrow> (error + unit) \<times> world" where
  "plot lib data outfile w =
     (case data_edge_index data of
        None \<Rightarrow> (Inl (AssertionError ''cannot plot after train_test_split_edges has been called''), w)
      | Some edges \<Rightarrow>
          (case lib_add_edges lib (data_num_nodes data) edges of
             Some e \<Rightarrow> (Inl e, w)
           | None \<Rightarrow>
               (let n = n_classes (data_y data);
                    colours = draw_colours lib (random_pos w) n;
                    w = w\<lparr>random_pos := random_pos w + 3 * n\<rparr>
                in case vertex_colours colours (data_y data) of
                     Inl e \<Rightarrow> (Inl e, w)
                   | Inr cs \<Rightarrow>
                       (let g = \<lparr>vcount = data_num_nodes data, ig_edges = edges, vs_color = cs\<rparr>
                        in case lib_ig_plot lib g of
                             Some e \<Rightarrow> (Inl e, w)
                           | None \<Rightarrow>
                               (let w = w\<lparr>files := (files w)(outfile \<mapsto> Rendering g)\<rparr>
                                in case lib_image_open lib (Rendering g) of
                                     Some e \<Rightarrow> (Inl e, w)
                                   | None \<Rightarrow> (Inr (), w\<lparr>displayed := displayed w @ [g]\<rparr>))))))"

section \<open>Training loops\<close>

text \<open>
  In the training functions the tensor computations are library calls. They are
  parameters acting on a state \<open>'m\<close> that stands for everything torch holds: the weights
  of the model, the state of its optimizer, its training flag and the state of torch's
  random generator. A call either raises or returns a value, and leaves a new state
  either way. \<open>returning f\<close> is a call that always returns, with the value and the state
  the total function \<open>f\<close> gives; \<open>returning_on\<close> is the same for a call with two arguments.
\<close>

definition returning :: "('m \<Rightarrow> 'a \<times> 'm) \<Rightarrow> 'm \<Rightarrow> (error + 'a) \<times> 'm" where
  "returning f m = (case f m of (x, m') \<Rightarrow> (Inr x, m'))"

definition returning_on ::
  "('x \<Rightarrow> 'y \<Rightarrow> 'm \<Rightarrow> 'a \<times> 'm) \<Rightarrow> 'x \<Rightarrow> 'y \<Rightarrow> 'm \<Rightarrow> (error + 'a) \<times> 'm" where
  "returning_on f x y = returning (f x y)"

subsection \<open>b1-transition: \<open>train_stargazer_gnn\<close>\<close>

text \<open>
  The inner loop \<open>for batch_index in range(len(batches_x))\<close>. \<open>step batch_x batch_y\<close> is the
  body between the two list reads and the accumulation: batch the graphs, run the
  network, compute the loss against the one-hot labels, take one optimizer step; it
  returns \<open>loss.item()\<close>.
\<close>

fun batch_loop ::
  "('g list \<Rightarrow> int list \<Rightarrow> 'm \<Rightarrow> (error + real) \<times> 'm) \<Rightarrow> 'g list list \<Rightarrow> int list list
     \<Rightarrow> int list \<Rightarrow> real \<times> 'm \<Rightarrow> (error + real) \<times> 'm" where
  "batch_loop step batches_x batches_y [] (epoch_loss, m) = (Inr epoch_loss, m)"
| "batch_loop step batches_x batches_y (batch_index # rest) (epoch_loss, m) =
     (case py_get batches_x batch_index of
        Inl e \<Rightarrow> (Inl e, m)
      | Inr batch_x \<Rightarrow>
          (case py_get batches_y batch_index of
             Inl e \<Rightarrow> (Inl e, m)
           | Inr batch_y \<Rightarrow>
               (case step batch_x batch_y m of
                  (Inl e, m') \<Rightarrow> (Inl e, m')
                | (Inr loss, m') \<Rightarrow>
                    batch_loop step batches_x batches_y rest (epoch_loss + loss, m'))))"

text \<open>
  The outer loop \<open>for epoch_index in range(num_epochs)\<close>. \<open>epoch_loss\<close> starts as the int 0,
  so dividing it by the number of batches raises when there is no batch.
\<close>

fun epoch_loop ::
  "('g list \<Rightarrow> int list \<Rightarrow> 'm \<Rightarrow> (error + real) \<times> 'm) \<Rightarrow> 'g list list \<Rightarrow> int list list
     \<Rightarrow> int list \<Rightarrow> real list \<times> 'm \<times> world \<Rightarrow> (error + real list) \<times> 'm \<times> world" where
  "epoch_loop step batches_x batches_y [] (epoch_losses, m, w) = (Inr epoch_losses, m, w)"
| "epoch_loop step batches_x batches_y (epoch_index # rest) (epoch_losses, m, w) =
     (case batch_loop step batches_x batches_y (py_range (int (length batches_x))) (0, m) of
        (Inl e, m') \<Rightarrow> (Inl e, m', w)
      | (Inr epoch_loss, m') \<Rightarrow>
          if length batches_x = 0 then (Inl ZeroDivisionError, m', w)
          else (let epoch_loss = epoch_loss / real (length batches_x);
                    w' = py_print (EpochLoss epoch_index epoch_loss) w
                in epoch_loop step batches_x batches_y rest (epoch_losses @ [epoch_loss], m', w')))"

text \<open>
  \<open>train_stargazer_gnn(gnn, num_epochs)\<close>, with the globals \<open>stargazer_x\<close> and \<open>stargazer_y\<close>
  as arguments. \<open>adam\<close> creates the optimizer for the network.
\<close>

definition train_stargazer_gnn ::
  "('m \<Rightarrow> (error + unit) \<times> 'm) \<Rightarrow> ('g list \<Rightarrow> int list \<Rightarrow> 'm \<Rightarrow> (error + real) \<times> 'm)
     \<Rightarrow> 'g list \<Rightarrow> int list \<Rightarrow> 'm \<Rightarrow> int \<Rightarrow> world \<Rightarrow> (error + real list) \<times> 'm \<times> world" where
  "train_stargazer_gnn adam step stargazer_x stargazer_y gnn num_epochs w =
     (case adam gnn of
        (Inl e, m) \<Rightarrow> (Inl e, m, w)
      | (Inr opt, m) \<Rightarrow>
          (let num_train = 8096
           in case get_batches (py_slice stargazer_x 0 num_train)
                     (py_slice stargazer_y 0 num_train) 64 of
                Inl e \<Rightarrow> (Inl e, m, w)
              | Inr (batches_x, batches_y) \<Rightarrow>
                  epoch_loop step batches_x batches_y (py_range num_epochs) ([], m, w)))"

text \<open>
  The epochs as the claim words them, for library calls that return, to compare the
  loop with: \<open>epoch_run\<close> gives the batch losses of one epoch and the state after it,
  \<open>mean_batch_losses n\<close> the means of \<open>n\<close> successive epochs, \<open>epochs_state n\<close> the state after them.
\<close>

fun epoch_run ::
  "('g list \<Rightarrow> int list \<Rightarrow> 'm \<Rightarrow> real \<times> 'm) \<Rightarrow> ('g list \<times> int list) list \<Rightarrow> 'm \<Rightarrow> real list \<times> 'm" where
  "epoch_run step [] m = ([], m)"
| "epoch_run step ((batch_x, batch_y) # rest) m =
     (let (loss, m') = step batch_x batch_y m;
          (losses, m'') = epoch_run step rest m'
      in (loss # losses, m''))"

fun mean_batch_losses ::
  "('g list \<Rightarrow> int list \<Rightarrow> 'm \<Rightarrow> real \<times> 'm) \<Rightarrow> ('g list \<times> int list) list \<Rightarrow> nat \<Rightarrow> 'm \<Rightarrow> real list" where
  "mean_batch_losses step batches 0 m = []"
| "mean_batch_losses step batches (Suc n) m =
     (let (losses, m') = epoch_run step batches m
      in sum_list losses / real (length batches) # mean_batch_losses step batches n m')"

definition epochs_state ::
  "('g list \<Rightarrow> int list \<Rightarrow> 'm \<Rightarrow> real \<times> 'm) \<Rightarrow> ('g list \<times> int list) list \<Rightarrow> nat \<Rightarrow> 'm \<Rightarrow> 'm" where
  "epochs_state step batches n m = ((\<lambda>m. snd (epoch_run step batches m)) ^^ n) m"

subsection \<open>b2-graphsage: \<open>train\<close>\<close>

text \<open>
  Indexing by a boolean mask, \<open>xs[msk]\<close>, keeps the entries where the mask is true; a mask
  that has not one entry per row raises.
\<close>

definition masked :: "'a list \<Rightarrow> bool list \<Rightarrow> 'a list" where
  "masked xs msk = map fst (filter snd (zip xs msk))"

definition mask_select :: "'a list \<Rightarrow> bool list \<Rightarrow> error + 'a list" where
  "mask_select xs msk = (if length msk \<noteq> length xs then Inl IndexError else Inr (masked xs msk))"

text \<open>
  \<open>indices == true\<close> on two vectors: elementwise for equal lengths, a vector of one element
  is compared with every element of the other, and other lengths raise.
\<close>

definition torch_eq :: "int list \<Rightarrow> int list \<Rightarrow> error + bool list" where
  "torch_eq xs ys =
     (if length xs = length ys then Inr (map2 (=) xs ys)
      else if length xs = 1 then Inr (map (\<lambda>y. hd xs = y) ys)
      else if length ys = 1 then Inr (map (\<lambda>x. x = hd ys) xs)
      else Inl (LibraryError ''RuntimeError''))"

text \<open>
  \<open>get_accuracy(pred, true)\<close>. \<open>torch_max\<close> is the index part of the library call
  \<open>torch.max(pred, dim=1)\<close>, a parameter that may raise. \<open>rowwise am\<close> is such a call that
  returns, with the index \<open>am\<close> chooses in each row.
\<close>

definition get_accuracy ::
  "(tensor \<Rightarrow> error + int list) \<Rightarrow> tensor \<Rightarrow> int list \<Rightarrow> error + real" where
  "get_accuracy torch_max pred true =
     (case torch_max pred of
        Inl e \<Rightarrow> Inl e
      | Inr indices \<Rightarrow>
          (case torch_eq indices true of
             Inl e \<Rightarrow> Inl e
           | Inr hits \<Rightarrow>
               (let correct = length (filter id hits)
                in if length true = 0 then Inl ZeroDivisionError
                   else Inr (real correct * 1.0 / real (length true)))))"

definition rowwise :: "(real list \<Rightarrow> int) \<Rightarrow> tensor \<Rightarrow> error + int list" where
  "rowwise am pred = Inr (map am pred)"

text \<open>
  The library calls of \<open>train\<close>: \<open>model.train()\<close>, the forward pass \<open>model(features)\<close>, the loss
  on the training rows followed by \<open>zero_grad\<close>, \<open>backward\<close> and \<open>optimizer.step()\<close> (returning
  \<open>loss.item()\<close>), \<open>model.eval()\<close>, and the \<open>torch.max\<close> of \<open>get_accuracy\<close>. The two mode
  switches only set a flag.
\<close>

record 'm sage_lib =
  set_train :: "'m \<Rightarrow> 'm"
  forward :: "'m \<Rightarrow> (error + tensor) \<times> 'm"
  learn :: "tensor \<Rightarrow> int list \<Rightarrow> 'm \<Rightarrow> (error + real) \<times> 'm"
  set_eval :: "'m \<Rightarrow> 'm"
  sage_torch_max :: "tensor \<Rightarrow> error + int list"

text \<open>
  The loop \<open>for epoch in range(n_epochs)\<close> over the local variables \<open>output\<close> (unbound until
  the first epoch has run), \<open>all_train_logits\<close>, the torch state and the world. The
  durations and the rate derived from them are left out of the printed line.
\<close>

fun train_loop ::
  "'m sage_lib \<Rightarrow> int list \<Rightarrow> bool list \<Rightarrow> bool list \<Rightarrow> int list
     \<Rightarrow> tensor option \<times> tensor list \<times> 'm \<times> world
     \<Rightarrow> error option \<times> tensor option \<times> tensor list \<times> 'm \<times> world" where
  "train_loop lib labels train_mask val_mask [] s = (None, s)"
| "train_loop lib labels train_mask val_mask (epoch # rest) (output, all_train_logits, m, w) =
     (case forward lib (set_train lib m) of
        (Inl e, m) \<Rightarrow> (Some e, output, all_train_logits, m, w)
      | (Inr out, m) \<Rightarrow>
          (case mask_select out train_mask of
             Inl e \<Rightarrow> (Some e, Some out, all_train_logits, m, w)
           | Inr output_train \<Rightarrow>
               (case mask_select labels train_mask of
                  Inl e \<Rightarrow> (Some e, Some out, all_train_logits, m, w)
                | Inr labels_train \<Rightarrow>
                    (case learn lib output_train labels_train m of
                       (Inl e, m) \<Rightarrow> (Some e, Some out, all_train_logits, m, w)
                     | (Inr loss, m) \<Rightarrow>
                         (let m = set_eval lib m
                          in case mask_select out val_mask of
                               Inl e \<Rightarrow> (Some e, Some out, all_train_logits, m, w)
                             | Inr output_val \<Rightarrow>
                                 (case mask_select labels val_mask of
                                    Inl e \<Rightarrow> (Some e, Some out, all_train_logits, m, w)
                                  | Inr labels_val \<Rightarrow>
                                      (case get_accuracy (sage_torch_max lib) output_val labels_val of
                                         Inl e \<Rightarrow> (Some e, Some out, all_train_logits, m, w)
                                       | Inr acc \<Rightarrow>
                                           train_loop lib labels train_mask val_mask rest
                                             (Some out, all_train_logits @ [output_train], m,
                                              py_print (EpochAccuracy epoch loss acc) w))))))))"

text \<open>
  \<open>train(model, optimizer, n_epochs)\<close>, with the globals \<open>labels\<close>, \<open>train_mask\<close> and \<open>val_mask\<close>
  as arguments; model and optimizer are the torch state. It returns
  \<open>model, output, all_train_logits\<close>.
\<close>

definition train ::
  "'m sage_lib \<Rightarrow> int list \<Rightarrow> bool list \<Rightarrow> bool list \<Rightarrow> 'm \<Rightarrow> int \<Rightarrow> world
     \<Rightarrow> (error + ('m \<times> tensor \<times> tensor list)) \<times> 'm \<times> world" where
  "train lib labels train_mask val_mask model n_epochs w =
     (case train_loop lib labels train_mask val_mask (py_range n_epochs) (None, [], model, w) of
        (Some e, output, all_train_logits, m, w') \<Rightarrow> (Inl e, m, w')
      | (None, output, all_train_logits, m, w') \<Rightarrow>
          (let w'' = py_print (Text ''training complete'') w'
           in case output of
                None \<Rightarrow> (Inl UnboundLocalError, m, w'')
              | Some out \<Rightarrow> (Inr (m, out, all_train_logits), m, w'')))"

text \<open>
  One epoch of \<open>train\<close> for library calls that return and masks that fit: the forward
  output, the training rows, the loss and the state after the epoch.
\<close>

definition sage_epoch ::
  "('m \<Rightarrow> 'm) \<Rightarrow> ('m \<Rightarrow> tensor \<times> 'm) \<Rightarrow> (tensor \<Rightarrow> int list \<Rightarrow> 'm \<Rightarrow> real \<times> 'm) \<Rightarrow> ('m \<Rightarrow> 'm)
     \<Rightarrow> int list \<Rightarrow> bool list \<Rightarrow> 'm \<Rightarrow> tensor \<times> tensor \<times> real \<times> 'm" where
  "sage_epoch to_train fwd lrn to_eval labels train_mask m =
     (let (out, m1) = fwd (to_train m);
          output_train = masked out train_mask;
          (loss, m2) = lrn output_train (masked labels train_mask) m1
      in (out, output_train, loss, to_eval m2))"

subsection \<open>b3-vgae: \<open>train_gae\<close> and \<open>train_vgae\<close>\<close>

text \<open>
  The global \<open>writer\<close> is a \<open>SummaryWriter\<close> on a log directory under \<open>./log/\<close>. The library
  call \<open>writer.add_scalar(tag, value, step)\<close> may raise (\<open>add_scalar_fails\<close> gives the
  exception, if any), and is then taken to leave the log as it was; when it returns, it
  has appended the scalar to the event log in that directory. \<open>returning_writer dir\<close> is
  a writer on \<open>dir\<close> whose calls return.
\<close>

record summary_writer =
  log_dir :: string
  add_scalar_fails :: "string \<Rightarrow> real \<Rightarrow> int \<Rightarrow> world \<Rightarrow> error option"

definition returning_writer :: "string \<Rightarrow> summary_writer" where
  "returning_writer dir = \<lparr>log_dir = dir, add_scalar_fails = (\<lambda>tag v step w. None)\<rparr>"

definition event_log :: "world \<Rightarrow> string \<Rightarrow> (string \<times> real \<times> int) list" where
  "event_log w dir = (case files w dir of Some (EventLog l) \<Rightarrow> l | _ \<Rightarrow> [])"

definition append_event :: "string \<Rightarrow> string \<Rightarrow> real \<Rightarrow> int \<Rightarrow> world \<Rightarrow> world" where
  "append_event dir tag v step w =
     w\<lparr>files := (files w)(dir \<mapsto> EventLog (event_log w dir @ [(tag, v, step)]))\<rparr>"

definition add_scalar ::
  "summary_writer \<Rightarrow> string \<Rightarrow> real \<Rightarrow> int \<Rightarrow> world \<Rightarrow> (error + unit) \<times> world" where
  "add_scalar writer tag v step w =
     (case add_scalar_fails writer tag v step w of
        Some e \<Rightarrow> (Inl e, w)
      | None \<Rightarrow> (Inr (), append_event (log_dir writer) tag v step w))"

text \<open>
  The tail of an epoch that \<open>train_gae\<close> and \<open>train_vgae\<close> share: log the loss, run the
  notebook's \<open>test\<close> on the test edges (\<open>eval\<close>), log AUC and AP, print every hundredth epoch.
  The result is the exception raised, if any, or the new \<open>(auc, ap)\<close>.
\<close>

definition log_and_test ::
  "('m \<Rightarrow> (error + real \<times> real) \<times> 'm) \<Rightarrow> summary_writer \<Rightarrow> int \<Rightarrow> real \<Rightarrow> 'm \<Rightarrow> world
     \<Rightarrow> (error + (real option \<times> real option)) \<times> 'm \<times> world" where
  "log_and_test eval writer epoch loss m w =
     (case add_scalar writer ''loss'' loss epoch w of
        (Inl e, w) \<Rightarrow> (Inl e, m, w)
      | (Inr logged, w) \<Rightarrow>
          (case eval m of
             (Inl e, m) \<Rightarrow> (Inl e, m, w)
           | (Inr (auc, ap), m) \<Rightarrow>
               (case add_scalar writer ''AUC'' auc epoch w of
                  (Inl e, w) \<Rightarrow> (Inl e, m, w)
                | (Inr logged, w) \<Rightarrow>
                    (case add_scalar writer ''AP'' ap epoch w of
                       (Inl e, w) \<Rightarrow> (Inl e, m, w)
                     | (Inr logged, w) \<Rightarrow>
                         (Inr (Some auc, Some ap), m,
                          if (epoch + 1) mod 100 = 0
                          then py_print (EpochMetrics epoch auc ap) w else w)))))"

text \<open>
  The loop \<open>for epoch in range(0, 200)\<close> of \<open>train_gae\<close> over \<open>(auc, ap)\<close>, the torch state and
  the world. \<open>step\<close> is the training step (\<open>zero_grad\<close>, \<open>encode\<close>, \<open>recon_loss\<close>, \<open>backward\<close>,
  \<open>optimizer.step()\<close>) returning \<open>loss.item()\<close>.
\<close>

fun gae_loop ::
  "('m \<Rightarrow> (error + real) \<times> 'm) \<Rightarrow> ('m \<Rightarrow> (error + real \<times> real) \<times> 'm) \<Rightarrow> summary_writer
     \<Rightarrow> int list
     \<Rightarrow> (real option \<times> real option) \<times> 'm \<times> world
     \<Rightarrow> (error + (real option \<times> real option)) \<times> 'm \<times> world" where
  "gae_loop step eval writer [] (r, m, w) = (Inr r, m, w)"
| "gae_loop step eval writer (epoch # rest) (r, m, w) =
     (case step m of
        (Inl e, m) \<Rightarrow> (Inl e, m, w)
      | (Inr loss, m) \<Rightarrow>
          (case log_and_test eval writer epoch loss m w of
             (Inl e, m, w) \<Rightarrow> (Inl e, m, w)
           | (Inr r, m, w) \<Rightarrow> gae_loop step eval writer rest (r, m, w)))"

definition train_gae ::
  "('m \<Rightarrow> (error + real) \<times> 'm) \<Rightarrow> ('m \<Rightarrow> (error + real \<times> real) \<times> 'm) \<Rightarrow> summary_writer
     \<Rightarrow> 'm \<Rightarrow> world
     \<Rightarrow> (error + (real option \<times> real option)) \<times> 'm \<times> world" where
  "train_gae step eval writer m w =
     gae_loop step eval writer (py_range 200) ((None, None), m, py_print (Text ''training gae'') w)"

text \<open>
  The loop \<open>for epoch in range(200)\<close> of \<open>train_vgae\<close>. \<open>recon\<close> is \<open>zero_grad\<close>, \<open>encode\<close> and
  \<open>recon_loss\<close>; \<open>kl\<close> is \<open>vgae.kl_loss()\<close>; the loss is formed by the notebook itself, dividing
  by \<open>data.num_nodes\<close>; \<open>descend\<close> is \<open>loss.backward()\<close> and \<open>optimizer.step()\<close>.
\<close>

fun vgae_loop ::
  "('m \<Rightarrow> (error + real) \<times> 'm) \<Rightarrow> ('m \<Rightarrow> (error + real) \<times> 'm) \<Rightarrow> (real \<Rightarrow> 'm \<Rightarrow> (error + unit) \<times> 'm)
     \<Rightarrow> ('m \<Rightarrow> (error + real \<times> real) \<times> 'm) \<Rightarrow> summary_writer \<Rightarrow> nat \<Rightarrow> int list
     \<Rightarrow> (real option \<times> real option) \<times> 'm \<times> world
     \<Rightarrow> (error + (real option \<times> real option)) \<times> 'm \<times> world" where
  "vgae_loop recon kl descend eval writer n_nodes [] (r, m, w) = (Inr r, m, w)"
| "vgae_loop recon kl descend eval writer n_nodes (epoch # rest) (r, m, w) =
     (case recon m of
        (Inl e, m) \<Rightarrow> (Inl e, m, w)
      | (Inr recon_loss, m) \<Rightarrow>
          (case kl m of
             (Inl e, m) \<Rightarrow> (Inl e, m, w)
           | (Inr kl_term, m) \<Rightarrow>
               if n_nodes = 0 then (Inl ZeroDivisionError, m, w)
               else (let loss = recon_loss + (1 / real n_nodes) * kl_term
                     in case descend loss m of
                          (Inl e, m) \<Rightarrow> (Inl e, m, w)
                        | (Inr u, m) \<Rightarrow>
                            (case log_and_test eval writer epoch loss m w of
                               (Inl e, m, w) \<Rightarrow> (Inl e, m, w)
                             | (Inr r, m, w) \<Rightarrow>
                                 vgae_loop recon kl descend eval writer n_nodes rest (r, m, w)))))"

definition train_vgae ::
  "('m \<Rightarrow> (error + real) \<times> 'm) \<Rightarrow> ('m \<Rightarrow> (error + real) \<times> 'm) \<Rightarrow> (real \<Rightarrow> 'm \<Rightarrow> (error + unit) \<times> 'm)
     \<Rightarrow> ('m \<Rightarrow> (error + real \<times> real) \<times> 'm) \<Rightarrow> summary_writer \<Rightarrow> nat \<Rightarrow> 'm \<Rightarrow> world
     \<Rightarrow> (error + (real option \<times> real option)) \<times> 'm \<times> world" where
  "train_vgae recon kl descend eval writer n_nodes m w =
     vgae_loop recon kl descend eval writer n_nodes (py_range 200)
       ((None, None), m, py_print (Text ''training vgae'') w)"

subsection \<open>Observing the epochs of a run\<close>

text \<open>The epoch a printed line reports, if it reports one.\<close>

fun printed_epoch :: "printed \<Rightarrow> int option" where
  "printed_epoch (Text s) = None"
| "printed_epoch (EpochLoss epoch loss) = Some epoch"
| "printed_epoch (EpochAccuracy epoch loss acc) = Some epoch"
| "printed_epoch (EpochMetrics epoch auc ap) = Some epoch"

text \<open>
  The scalars that training and testing over the given epochs hand to the writer, in
  order, when every call returns: for each epoch the loss of its training step, then the
  AUC and the AP of the test that follows the step.
\<close>

fun logged_scalars ::
  "('m \<Rightarrow> real \<times> 'm) \<Rightarrow> ('m \<Rightarrow> (real \<times> real) \<times> 'm) \<Rightarrow> int list \<Rightarrow> 'm
     \<Rightarrow> (string \<times> real \<times> int) list" where
  "logged_scalars step eval [] m = []"
| "logged_scalars step eval (epoch # rest) m =
     (let (loss, m1) = step m;
          ((auc, ap), m2) = eval m1
      in [(''loss'', loss, epoch), (''AUC'', auc, epoch), (''AP'', ap, epoch)]
           @ logged_scalars step eval rest m2)"

text \<open>
  One training step of \<open>train_vgae\<close> when every call returns and the graph has a vertex:
  the loss the notebook forms and the state after the descent.
\<close>

definition vgae_step ::
  "('m \<Rightarrow> real \<times> 'm) \<Rightarrow> ('m \<Rightarrow> real \<times> 'm) \<Rightarrow> (real \<Rightarrow> 'm \<Rightarrow> unit \<times> 'm) \<Rightarrow> nat \<Rightarrow> 'm \<Rightarrow> real \<times> 'm" where
  "vgae_step recon kl descend n_nodes m =
     (let (recon_loss, m1) = recon m;
          (kl_term, m2) = kl m1;
          loss = recon_loss + (1 / real n_nodes) * kl_term
      in (loss, snd (descend loss m2)))"

section \<open>Concrete runs\<close>

text \<open>
  Values for evaluating the functions above on concrete inputs: a world in which nothing
  has been written, shown, printed or drawn yet, and library stand-ins whose torch state
  is a counter of the steps made: a batch step of loss 1, a training step of loss 1, a
  test whose AUC is the counter, a forward pass of two rows, a learning step of loss 1, a
  descent, and an optimizer construction that changes nothing.
\<close>

definition empty_world :: world where
  "empty_world = \<lparr>files = Map.empty, displayed = [], stdout = [], random_pos = 0\<rparr>"

definition counting_batch_step :: "'g list \<Rightarrow> int list \<Rightarrow> nat \<Rightarrow> real \<times> nat" where
  "counting_batch_step batch_x batch_y m = (1, Suc m)"

definition counting_step :: "nat \<Rightarrow> real \<times> nat" where
  "counting_step m = (1, Suc m)"

definition counting_test :: "nat \<Rightarrow> (real \<times> real) \<times> nat" where
  "counting_test m = ((real m, 0), m)"

definition counting_forward :: "nat \<Rightarrow> tensor \<times> nat" where
  "counting_forward m = ([[1, 0], [0, 1]], m)"

definition counting_learn :: "tensor \<Rightarrow> int list \<Rightarrow> nat \<Rightarrow> real \<times> nat" where
  "counting_learn output_train labels_train m = (1, Suc m)"

definition counting_sage_lib :: "nat sage_lib" where
  "counting_sage_lib =
     \<lparr>set_train = id, forward = returning counting_forward, learn = returning_on counting_learn,
      set_eval = id, sage_torch_max = rowwise (\<lambda>row. 0)\<rparr>"

definition counting_descend :: "real \<Rightarrow> nat \<Rightarrow> unit \<times> nat" where
  "counting_descend loss m = ((), Suc m)"

definition noting :: "nat \<Rightarrow> unit \<times> nat" where
  "noting m = ((), m)"

text \<open>Library calls that raise.\<close>

definition failing :: "string \<Rightarrow> 'm \<Rightarrow> (error + 'a) \<times> 'm" where
  "failing name m = (Inl (LibraryError name), m)"


text \<open>A writer whose \<open>add_scalar\<close> raises for one tag.\<close>

definition failing_writer :: "string \<Rightarrow> string \<Rightarrow> summary_writer" where
  "failing_writer dir failing_tag =
     \<lparr>log_dir = dir,
      add_scalar_fails = (\<lambda>tag v step w. if tag = failing_tag
                            then Some (LibraryError ''add_scalar'') else None)\<rparr>"

definition succeeding_plot_lib :: plot_lib where
  "succeeding_plot_lib =
     \<lparr>lib_add_edges = (\<lambda>n edges. None), lib_ig_plot = (\<lambda>g. None),
      lib_image_open = (\<lambda>f. None), lib_randint = (\<lambda>k. 7)\<rparr>"

text \<open>A stand-in for \<open>randn_like\<close>: the generator state is a counter, and so is the noise.\<close>

definition counter_randn :: "nat \<Rightarrow> tensor \<Rightarrow> tensor \<times> nat" where
  "counter_randn rng t = (map (map (\<lambda>x. real rng)) t, Suc rng)"

section \<open>Verified properties\<close>

subsection \<open>What \<open>get_batches\<close> returns\<close>

lemma batches_loop_map:
  "batches_loop xs ys b num is (bx, bys) =
     (bx @ map (\<lambda>i. py_slice xs (b * i) (min (b * (i + 1)) num)) is,
      bys @ map (\<lambda>i. py_slice ys (b * i) (min (b * (i + 1)) num)) is)"
  by (induction "is" arbitrary: bx bys) (simp_all add: Let_def)

lemma py_slice_full_batch:
  assumes "(i + 1) * b \<le> length xs"
  shows "py_slice xs (int b * int i) (min (int b * (int i + 1)) (int (length xs)))
           = take b (drop (i * b) xs)"
proof -
  have le: "int b * (int i + 1) \<le> int (length xs)"
    using assms by (metis of_nat_mult of_nat_Suc Suc_eq_plus1 mult.commute of_nat_le_iff of_nat_add of_nat_1)
  have lo: "slice_index (length xs) (int b * int i) = i * b"
    using assms by (simp add: slice_index_def flip: of_nat_mult) (simp add: mult.commute)
  have hi: "slice_index (length xs) (int b * (int i + 1)) = (i + 1) * b"
  proof -
    have "int b * (int i + 1) = int ((i + 1) * b)" by (simp add: algebra_simps)
    then show ?thesis using assms by (simp add: slice_index_def del: of_nat_mult of_nat_add)
  qed
  show ?thesis
    using le lo hi by (simp add: py_slice_def min_absorb1)
qed

lemma py_range_int: "py_range (int k) = map int [0..<k]"
  by (simp add: py_range_def)

lemma full_batches_map:
  assumes "k * b \<le> length xs"
  shows "map (\<lambda>i. py_slice xs (int b * i) (min (int b * (i + 1)) (int (length xs))))
           (py_range (int k)) = map (\<lambda>i. take b (drop (i * b) xs)) [0..<k]"
proof -
  have "py_slice xs (int b * int i) (min (int b * (int i + 1)) (int (length xs)))
          = take b (drop (i * b) xs)" if "i < k" for i
  proof -
    have "i + 1 \<le> k" using that by simp
    then have "(i + 1) * b \<le> k * b" by (rule mult_le_mono1)
    then have "(i + 1) * b \<le> length xs" using assms by (rule order_trans)
    then show ?thesis by (rule py_slice_full_batch)
  qed
  then show ?thesis unfolding py_range_int by (simp add: o_def)
qed

lemma concat_chunks: "concat (map (\<lambda>i. take b (drop (i * b) xs)) [0..<k]) = take (k * b) xs"
proof (induction k)
  case 0
  then show ?case by simp
next
  case (Suc k)
  have "take (k * b + b) xs = take (k * b) xs @ take b (drop (k * b) xs)"
    by (rule take_add)
  then show ?case using Suc.IH by (simp add: add.commute)
qed

lemma chunk_length:
  assumes "k * b \<le> length xs" "t \<in> set (map (\<lambda>i. take b (drop (i * b) xs)) [0..<k])"
  shows "length t = b"
proof -
  from assms(2) obtain i where i: "i < k" and t: "t = take b (drop (i * b) xs)" by auto
  have "i + 1 \<le> k" using i by simp
  then have "(i + 1) * b \<le> k * b" by (rule mult_le_mono1)
  with assms(1) have "i * b + b \<le> length xs" by simp
  then show ?thesis using t by simp
qed

lemma ceil_bounds:
  assumes "1 \<le> (b::int)" "1 \<le> (n::int)"
  shows "1 \<le> - ((- n) div b)" "b * (- ((- n) div b) - 1) < n" "n \<le> b * (- ((- n) div b))"
proof -
  let ?c = "- ((- n) div b)"
  have b0: "0 < b" using assms by simp
  have m: "- n = b * ((- n) div b) + (- n) mod b" by simp
  have r0: "0 \<le> (- n) mod b" and r1: "(- n) mod b < b" using b0 by simp_all
  have "b * ?c = - (b * ((- n) div b))" by simp
  with m have eq: "b * ?c = n + (- n) mod b" by linarith
  show "n \<le> b * ?c" using eq r0 by linarith
  have "b * (?c - 1) = b * ?c - b" by (simp add: algebra_simps)
  with eq r1 show lt: "b * (?c - 1) < n" by linarith
  show "1 \<le> ?c"
  proof (rule ccontr)
    assume "\<not> 1 \<le> ?c"
    then have "?c \<le> 0" by simp
    then have "b * ?c \<le> 0" using b0 by (simp add: mult_le_0_iff)
    with \<open>n \<le> b * ?c\<close> assms show False by linarith
  qed
qed

text \<open>
  Claim C1. For equal-length lists \<open>xs\<close>, \<open>ys\<close> of length \<open>num \<ge> 1\<close> and a batch size
  \<open>b \<ge> 1\<close>, \<open>get_batches\<close> returns exactly \<open>\<lceil>num / b\<rceil> - 1\<close> batches, each of \<open>b\<close>
  elements; laid end to end they are the first \<open>b * (\<lceil>num / b\<rceil> - 1)\<close> elements of the
  input, in order, which is always fewer than \<open>num\<close>: the last (partial or only) batch
  is never produced. When \<open>num \<le> b\<close> both results are empty.
\<close>

theorem get_batches_drops_last_batch:
  fixes xs :: "'a list" and ys :: "'b list" and b :: int
  assumes "length xs = length ys" and "1 \<le> length xs" and "1 \<le> b"
  shows "\<exists>bx bys. get_batches xs ys b = Inr (bx, bys)
           \<and> int (length bx) = \<lceil>real (length xs) / real_of_int b\<rceil> - 1
           \<and> length bys = length bx
           \<and> (\<forall>t \<in> set bx. int (length t) = b)
           \<and> (\<forall>t \<in> set bys. int (length t) = b)
           \<and> concat bx = take (nat (b * (\<lceil>real (length xs) / real_of_int b\<rceil> - 1))) xs
           \<and> concat bys = take (nat (b * (\<lceil>real (length xs) / real_of_int b\<rceil> - 1))) ys
           \<and> length (concat bx) < length xs
           \<and> (int (length xs) \<le> b \<longrightarrow> bx = [] \<and> bys = [])"
proof -
  define n where "n = int (length xs)"
  define c where "c = - ((- n) div b)"
  define k where "k = nat (c - 1)"
  define bn where "bn = nat b"
  have n1: "1 \<le> n" using assms(2) by (simp add: n_def)
  have ceil: "\<lceil>real (length xs) / real_of_int b\<rceil> = c"
    using ceiling_divide_eq_div [of n b] by (simp add: c_def n_def)
  have c1: "1 \<le> c" and lo: "b * (c - 1) < n" and hi: "n \<le> b * c"
    using ceil_bounds [OF assms(3) n1] by (simp_all add: c_def)
  have b_int: "b = int bn" using assms(3) by (simp add: bn_def)
  have k_int: "c - 1 = int k" using c1 by (simp add: k_def)
  have "int (k * bn) = b * (c - 1)" by (simp add: b_int k_int)
  with lo have kb_lt: "k * bn < length xs" unfolding n_def by linarith
  then have kb: "k * bn \<le> length xs" and kby: "k * bn \<le> length ys"
    using assms(1) by simp_all
  have natk: "nat (b * (c - 1)) = k * bn" by (simp add: b_int k_int flip: of_nat_mult)
  let ?bx = "map (\<lambda>i. take bn (drop (i * bn) xs)) [0..<k]"
  let ?bys = "map (\<lambda>i. take bn (drop (i * bn) ys)) [0..<k]"
  have run: "get_batches xs ys b = Inr (?bx, ?bys)"
  proof -
    have b0: "b \<noteq> 0" using assms(3) by simp
    have "get_batches xs ys b = Inr (batches_loop xs ys b n (py_range (c - 1)) ([], []))"
      using b0 by (simp add: get_batches_def math_ceil_div_def c_def n_def Let_def)
    also have "batches_loop xs ys b n (py_range (c - 1)) ([], [])
        = (map (\<lambda>i. py_slice xs (b * i) (min (b * (i + 1)) n)) (py_range (c - 1)),
           map (\<lambda>i. py_slice ys (b * i) (min (b * (i + 1)) n)) (py_range (c - 1)))"
      by (simp only: batches_loop_map append_Nil)
    also have "map (\<lambda>i. py_slice xs (b * i) (min (b * (i + 1)) n)) (py_range (c - 1)) = ?bx"
      unfolding b_int k_int n_def by (rule full_batches_map [OF kb])
    also have "map (\<lambda>i. py_slice ys (b * i) (min (b * (i + 1)) n)) (py_range (c - 1)) = ?bys"
      unfolding b_int k_int n_def assms(1) by (rule full_batches_map [OF kby])
    finally show ?thesis .
  qed
  have small: "?bx = [] \<and> ?bys = []" if "n \<le> b"
  proof -
    have "b * (c - 1) < b" using lo that by linarith
    then have "c - 1 < 1" using assms(3) by (simp add: mult_less_cancel_left2)
    then have "k = 0" using k_int by linarith
    then show ?thesis by simp
  qed
  show ?thesis
  proof (rule exI [where x = ?bx], rule exI [where x = ?bys], intro conjI)
    show "get_batches xs ys b = Inr (?bx, ?bys)" by (rule run)
    show "int (length ?bx) = \<lceil>real (length xs) / real_of_int b\<rceil> - 1"
      by (simp add: ceil k_int)
    show "length ?bys = length ?bx" by simp
    show "\<forall>t \<in> set ?bx. int (length t) = b"
    proof
      fix t assume "t \<in> set ?bx"
      then have "length t = bn" by (rule chunk_length [OF kb])
      then show "int (length t) = b" by (simp only: b_int)
    qed
    show "\<forall>t \<in> set ?bys. int (length t) = b"
    proof
      fix t assume "t \<in> set ?bys"
      then have "length t = bn" by (rule chunk_length [OF kby])
      then show "int (length t) = b" by (simp only: b_int)
    qed
    show "concat ?bx = take (nat (b * (\<lceil>real (length xs) / real_of_int b\<rceil> - 1))) xs"
      by (simp only: ceil natk concat_chunks)
    show "concat ?bys = take (nat (b * (\<lceil>real (length xs) / real_of_int b\<rceil> - 1))) ys"
      by (simp only: ceil natk concat_chunks)
    show "length (concat ?bx) < length xs"
      using kb_lt by (simp only: concat_chunks) simp
    show "int (length xs) \<le> b \<longrightarrow> ?bx = [] \<and> ?bys = []"
      using small by (simp add: n_def)
  qed
qed

theorem get_batches_drops_last_batch_witness:
  "length [1, 2, 3, 4, 5, 6, 7 :: nat] = length ''abcdefg''
     \<and> 1 \<le> length [1, 2, 3, 4, 5, 6, 7 :: nat] \<and> (1::int) \<le> 3
     \<and> get_batches [1, 2, 3, 4, 5, 6, 7 :: nat] ''abcdefg'' 3
           = Inr ([[1, 2, 3], [4, 5, 6]], [''abc'', ''def''])
     \<and> get_batches [1, 2, 3 :: nat] ''abc'' 3 = Inr ([], [])"
proof -
  have h: "length [1, 2, 3, 4, 5, 6, 7 :: nat] = length ''abcdefg''"
    "1 \<le> length [1, 2, 3, 4, 5, 6, 7 :: nat]" "(1::int) \<le> 3" by simp_all
  from get_batches_drops_last_batch [OF h]
  obtain bx bys where "get_batches [1, 2, 3, 4, 5, 6, 7 :: nat] ''abcdefg'' 3 = Inr (bx, bys)"
    by blast
  moreover have "get_batches [1, 2, 3, 4, 5, 6, 7 :: nat] ''abcdefg'' 3
           = Inr ([[1, 2, 3], [4, 5, 6]], [''abc'', ''def''])"
    by code_simp
  moreover have "get_batches [1, 2, 3 :: nat] ''abc'' 3 = Inr ([], [])"
    by code_simp
  ultimately show ?thesis using h by simp
qed

subsection \<open>Constructed graphs\<close>

lemma fold_max_ge_init: "(a::int) \<le> fold max ids a"
proof (induction ids arbitrary: a)
  case Nil
  show ?case by simp
next
  case (Cons x xs)
  have "a \<le> max x a" by simp
  also have "\<dots> \<le> fold max xs (max x a)" by (rule Cons.IH)
  finally show ?case by simp
qed

lemma fold_max_ge_mem: "i \<in> set ids \<Longrightarrow> (i::int) \<le> fold max ids a"
proof (induction ids arbitrary: a)
  case Nil
  then show ?case by simp
next
  case (Cons x xs)
  show ?case
  proof (cases "i = x")
    case True
    have "i \<le> max x a" using True by simp
    also have "\<dots> \<le> fold max xs (max x a)" by (rule fold_max_ge_init)
    finally show ?thesis by simp
  next
    case False
    then have "i \<in> set xs" using Cons.prems by simp
    then have "i \<le> fold max xs (max x a)" by (rule Cons.IH)
    then show ?thesis by simp
  qed
qed

lemma max_id_ge: "i \<in> set ids \<Longrightarrow> i \<le> max_id ids"
  unfolding max_id_def by (rule fold_max_ge_mem)

lemma dgl_graph_valid:
  assumes "dgl_graph u v = Inr g"
  shows "edge_src g = u" "edge_dst g = v" "length u = length v"
    "\<forall>i \<in> set (u @ v). 0 \<le> i \<and> i < int (num_nodes g)"
proof -
  have len: "length u = length v" and nonneg: "\<not> list_ex (\<lambda>i. i < 0) (u @ v)"
    and g: "g = \<lparr>num_nodes = nat (max_id (u @ v) + 1), edge_src = u, edge_dst = v\<rparr>"
    using assms by (simp_all add: dgl_graph_def split: if_splits)
  show "edge_src g = u" "edge_dst g = v" "length u = length v" using g len by simp_all
  show "\<forall>i \<in> set (u @ v). 0 \<le> i \<and> i < int (num_nodes g)"
  proof
    fix i assume i: "i \<in> set (u @ v)"
    then have "\<not> i < 0" using nonneg unfolding list_ex_iff by blast
    then have "0 \<le> i" by simp
    moreover have "i \<le> max_id (u @ v)" using i by (rule max_id_ge)
    ultimately show "0 \<le> i \<and> i < int (num_nodes g)" using g by simp
  qed
qed

lemma symmetric_edges:
  assumes "dgl_graph (src @ dst) (dst @ src) = Inr g" "length src = length dst"
  shows "graph_edges g = zip src dst @ zip dst src"
    "\<forall>(s, d) \<in> set (graph_edges g). 0 \<le> s \<and> s < int (num_nodes g) \<and> 0 \<le> d \<and> d < int (num_nodes g)"
    "length (graph_edges g) = 2 * length src"
proof -
  show e: "graph_edges g = zip src dst @ zip dst src"
    using dgl_graph_valid(1,2) [OF assms(1)] assms(2) by (simp add: graph_edges_def)
  show "length (graph_edges g) = 2 * length src" using assms(2) by (simp add: e)
  show "\<forall>(s, d) \<in> set (graph_edges g). 0 \<le> s \<and> s < int (num_nodes g) \<and> 0 \<le> d \<and> d < int (num_nodes g)"
  proof (clarify)
    fix s d assume "(s, d) \<in> set (graph_edges g)"
    then have "s \<in> set (src @ dst)" "d \<in> set (src @ dst)"
      unfolding e by (auto dest: set_zip_leftD set_zip_rightD)
    then have "s \<in> set ((src @ dst) @ (dst @ src))" "d \<in> set ((src @ dst) @ (dst @ src))" by auto
    then show "0 \<le> s \<and> s < int (num_nodes g) \<and> 0 \<le> d \<and> d < int (num_nodes g)"
      using dgl_graph_valid(4) [OF assms(1)] by blast
  qed
qed

lemma zip_map_mem: "x \<in> set xs \<Longrightarrow> (f x, g x) \<in> set (zip (map f xs) (map g xs))"
  by (induction xs) auto

lemma astype_int_of_int: "astype_int (of_int i) = i"
  by (simp add: astype_int_def)

text \<open>
  Claim C7. Every graph that \<open>make_stargazer_graph\<close> or \<open>make_webmluser_graph\<close> constructs
  has only edges whose source and destination are vertex ids of that graph, contains
  for every input edge \<open>[a, b]\<close> both directed edges \<open>(a, b)\<close> and \<open>(b, a)\<close> (for the float
  array of \<open>make_webmluser_graph\<close>: of the ids converted by \<open>astype(int)\<close>), and has
  exactly twice as many directed edges as there are input pairs.
\<close>

theorem constructed_graphs_valid_and_symmetric:
  "(make_stargazer_graph stargazer_edges index = Inr g \<longrightarrow>
      (\<exists>edges. stargazer_edges index = Some edges
         \<and> (\<forall>(a, b) \<in> set edges. (a, b) \<in> set (graph_edges g) \<and> (b, a) \<in> set (graph_edges g))
         \<and> length (graph_edges g) = 2 * length edges)
      \<and> (\<forall>(s, d) \<in> set (graph_edges g).
             0 \<le> s \<and> s < int (num_nodes g) \<and> 0 \<le> d \<and> d < int (num_nodes g)))
   \<and> (make_webmluser_graph wedges = Inr h \<longrightarrow>
      (\<forall>(a, b) \<in> set wedges.
          (astype_int a, astype_int b) \<in> set (graph_edges h)
          \<and> (astype_int b, astype_int a) \<in> set (graph_edges h))
      \<and> length (graph_edges h) = 2 * length wedges
      \<and> (\<forall>(s, d) \<in> set (graph_edges h).
             0 \<le> s \<and> s < int (num_nodes h) \<and> 0 \<le> d \<and> d < int (num_nodes h)))"
proof (intro conjI impI)
  assume run: "make_stargazer_graph stargazer_edges index = Inr g"
  then obtain edges where look: "stargazer_edges index = Some edges"
    by (cases "stargazer_edges index") (simp_all add: make_stargazer_graph_def)
  have build: "dgl_graph (map fst edges @ map snd edges) (map snd edges @ map fst edges) = Inr g"
    using run look by (simp add: make_stargazer_graph_def Let_def split: if_splits)
  have len: "length (map fst edges) = length (map snd edges)" by simp
  note sym = symmetric_edges [OF build len]
  have z: "zip (map fst edges) (map snd edges) = edges" by (simp add: zip_map_fst_snd)
  have both: "(a, b) \<in> set (graph_edges g) \<and> (b, a) \<in> set (graph_edges g)"
    if "(a, b) \<in> set edges" for a b
  proof -
    have "(b, a) \<in> set (zip (map snd edges) (map fst edges))"
      using zip_map_mem [OF that, of snd fst] by simp
    then show ?thesis using that by (simp add: sym(1) z)
  qed
  show "\<exists>edges. stargazer_edges index = Some edges
         \<and> (\<forall>(a, b) \<in> set edges. (a, b) \<in> set (graph_edges g) \<and> (b, a) \<in> set (graph_edges g))
         \<and> length (graph_edges g) = 2 * length edges"
  proof (intro exI conjI)
    show "stargazer_edges index = Some edges" by (rule look)
    show "\<forall>(a, b) \<in> set edges. (a, b) \<in> set (graph_edges g) \<and> (b, a) \<in> set (graph_edges g)"
      using both by blast
    show "length (graph_edges g) = 2 * length edges" using sym(3) by simp
  qed
  show "\<forall>(s, d) \<in> set (graph_edges g).
             0 \<le> s \<and> s < int (num_nodes g) \<and> 0 \<le> d \<and> d < int (num_nodes g)"
    by (rule sym(2))
next
  assume run: "make_webmluser_graph wedges = Inr h"
  let ?src = "map (astype_int \<circ> fst) wedges" and ?dst = "map (astype_int \<circ> snd) wedges"
  have build: "dgl_graph (?src @ ?dst) (?dst @ ?src) = Inr h"
    using run by (simp add: make_webmluser_graph_def Let_def)
  have len: "length ?src = length ?dst" by simp
  note sym = symmetric_edges [OF build len]
  have both: "(astype_int a, astype_int b) \<in> set (graph_edges h)
          \<and> (astype_int b, astype_int a) \<in> set (graph_edges h)"
    if "(a, b) \<in> set wedges" for a b
  proof -
    have "(astype_int a, astype_int b) \<in> set (zip ?src ?dst)"
      using zip_map_mem [OF that, of "astype_int \<circ> fst" "astype_int \<circ> snd"] by simp
    moreover have "(astype_int b, astype_int a) \<in> set (zip ?dst ?src)"
      using zip_map_mem [OF that, of "astype_int \<circ> snd" "astype_int \<circ> fst"] by simp
    ultimately show ?thesis by (simp add: sym(1))
  qed
  then show "\<forall>(a, b) \<in> set wedges.
          (astype_int a, astype_int b) \<in> set (graph_edges h)
          \<and> (astype_int b, astype_int a) \<in> set (graph_edges h)" by blast
  show "length (graph_edges h) = 2 * length wedges" using sym(3) by simp
  show "\<forall>(s, d) \<in> set (graph_edges h).
             0 \<le> s \<and> s < int (num_nodes h) \<and> 0 \<le> d \<and> d < int (num_nodes h)"
    by (rule sym(2))
qed

theorem constructed_graphs_valid_and_symmetric_witness:
  "make_stargazer_graph [19 \<mapsto> [(0, 1), (1, 2), (5, 2)]] 19
      = Inr \<lparr>num_nodes = 6, edge_src = [0, 1, 5, 1, 2, 2], edge_dst = [1, 2, 2, 0, 1, 5]\<rparr>
   \<and> make_webmluser_graph [(0, 1), (3, 1)]
      = Inr \<lparr>num_nodes = 4, edge_src = [0, 3, 1, 1], edge_dst = [1, 1, 0, 3]\<rparr>
   \<and> length (graph_edges \<lparr>num_nodes = 6, edge_src = [0, 1, 5, 1, 2, 2],
                                edge_dst = [1, 2, 2, 0, 1, 5]\<rparr>) = 2 * 3
   \<and> length (graph_edges \<lparr>num_nodes = 4, edge_src = [0, 3, 1, 1],
                                edge_dst = [1, 1, 0, 3]\<rparr>) = 2 * 2"
proof -
  let ?g = "\<lparr>num_nodes = 6, edge_src = [0, 1, 5, 1, 2, 2], edge_dst = [1, 2, 2, 0, 1, 5]\<rparr>"
  let ?h = "\<lparr>num_nodes = 4, edge_src = [0, 3, 1, 1], edge_dst = [1, 1, 0, 3]\<rparr>"
  have g: "make_stargazer_graph [19 \<mapsto> [(0, 1), (1, 2), (5, 2)]] 19 = Inr ?g"
    by (simp add: make_stargazer_graph_def dgl_graph_def max_id_def)
  have h: "make_webmluser_graph [(0, 1), (3, 1)] = Inr ?h"
    by (simp add: make_webmluser_graph_def dgl_graph_def max_id_def astype_int_def)
  from constructed_graphs_valid_and_symmetric
         [of "[19 \<mapsto> [(0, 1), (1, 2), (5, 2)]]" 19 ?g "[(0, 1), (3, 1)]" ?h] g h
  have "length (graph_edges ?g) = 2 * 3" "length (graph_edges ?h) = 2 * 2"
    by simp_all
  with g h show ?thesis by simp
qed

subsection \<open>Reparametrisation\<close>

lemma clamp_max_le: "components_le (clamp_max t m) m"
  by (simp add: components_le_def clamp_max_def)

lemma encode_eval:
  "\<not> training self \<Longrightarrow> VGAE_encode randn_like encoder self args rng =
      (fst (encoder args), self\<lparr>attr_mu := Some (fst (encoder args)),
          attr_logvar := Some (clamp_max (snd (encoder args)) MAX_LOGVAR)\<rparr>, rng)"
  by (simp add: VGAE_encode_def reparametrize_def Let_def split: prod.splits)

lemma encode_train:
  "training self \<Longrightarrow> VGAE_encode randn_like encoder self args rng =
     (t_add (fst (encoder args))
        (t_mul (fst (randn_like rng (clamp_max (snd (encoder args)) MAX_LOGVAR)))
           (t_exp (clamp_max (snd (encoder args)) MAX_LOGVAR))),
      self\<lparr>attr_mu := Some (fst (encoder args)),
          attr_logvar := Some (clamp_max (snd (encoder args)) MAX_LOGVAR)\<rparr>,
      snd (randn_like rng (clamp_max (snd (encoder args)) MAX_LOGVAR)))"
  by (simp add: VGAE_encode_def reparametrize_def Let_def split: prod.splits)

lemma encode_attrs:
  "attr_mu (fst (snd (VGAE_encode randn_like encoder self args rng))) = Some (fst (encoder args))"
  "attr_logvar (fst (snd (VGAE_encode randn_like encoder self args rng)))
     = Some (clamp_max (snd (encoder args)) MAX_LOGVAR)"
  by (cases "training self"; simp add: encode_eval encode_train)+

text \<open>
  Claim C6. When a VGAE model is not in training mode, \<open>reparametrize(mu, logvar)\<close> returns
  \<open>mu\<close> itself and leaves the random generator untouched, so \<open>encode\<close> returns the
  encoder's mean output whatever the generator state. In training mode the result is
  \<open>mu + randn * exp(logvar)\<close>, and in \<open>encode\<close> the \<open>logvar\<close> used there is the clamped one,
  whose components are all at most \<open>MAX_LOGVAR\<close>.
\<close>

theorem encode_eval_is_mean:
  "(\<not> training self \<longrightarrow>
      reparametrize randn_like self mu logvar rng = (mu, rng)
      \<and> fst (VGAE_encode randn_like encoder self args rng) = fst (encoder args)
      \<and> snd (snd (VGAE_encode randn_like encoder self args rng)) = rng)
   \<and> (training self \<longrightarrow>
      fst (reparametrize randn_like self mu logvar rng)
        = t_add mu (t_mul (fst (randn_like rng logvar)) (t_exp logvar))
      \<and> fst (VGAE_encode randn_like encoder self args rng)
        = t_add (fst (encoder args))
            (t_mul (fst (randn_like rng (clamp_max (snd (encoder args)) MAX_LOGVAR)))
               (t_exp (clamp_max (snd (encoder args)) MAX_LOGVAR)))
      \<and> components_le (clamp_max (snd (encoder args)) MAX_LOGVAR) MAX_LOGVAR)"
proof (intro conjI impI)
  assume ev: "\<not> training self"
  show "reparametrize randn_like self mu logvar rng = (mu, rng)"
    using ev by (simp add: reparametrize_def)
  show "fst (VGAE_encode randn_like encoder self args rng) = fst (encoder args)"
    using ev by (simp add: encode_eval)
  show "snd (snd (VGAE_encode randn_like encoder self args rng)) = rng"
    using ev by (simp add: encode_eval)
next
  assume tr: "training self"
  show "fst (reparametrize randn_like self mu logvar rng)
        = t_add mu (t_mul (fst (randn_like rng logvar)) (t_exp logvar))"
    using tr by (simp add: reparametrize_def split: prod.splits)
  show "fst (VGAE_encode randn_like encoder self args rng)
        = t_add (fst (encoder args))
            (t_mul (fst (randn_like rng (clamp_max (snd (encoder args)) MAX_LOGVAR)))
               (t_exp (clamp_max (snd (encoder args)) MAX_LOGVAR)))"
    using tr by (simp add: encode_train)
  show "components_le (clamp_max (snd (encoder args)) MAX_LOGVAR) MAX_LOGVAR"
    by (rule clamp_max_le)
qed

theorem encode_eval_is_mean_witness:
  "\<not> training (VGAE_init\<lparr>training := False\<rparr>)
   \<and> fst (VGAE_encode (\<lambda>(r::nat) t. (map (map (\<lambda>_. 1)) t, r + 1))
            (\<lambda>_. ([[1, 2]], [[0, 12]])) (VGAE_init\<lparr>training := False\<rparr>) () 0) = [[1, 2]]
   \<and> training VGAE_init
   \<and> fst (VGAE_encode (\<lambda>(r::nat) t. (map (map (\<lambda>_. 1)) t, r + 1))
            (\<lambda>_. ([[1, 2]], [[0, 12]])) VGAE_init () 0) = [[2, 2 + exp 10]]"
proof -
  let ?randn = "\<lambda>(r::nat) (t::tensor). (map (map (\<lambda>_. 1::real)) t, r + 1)"
  let ?enc = "\<lambda>_::unit. ([[1, 2::real]], [[0, 12::real]])"
  have e: "\<not> training (VGAE_init\<lparr>training := False\<rparr>)" and t: "training VGAE_init"
    by (simp_all add: VGAE_init_def)
  from encode_eval_is_mean [of "VGAE_init\<lparr>training := False\<rparr>" ?randn "[]" "[]" 0 ?enc "()"] e
  have "fst (VGAE_encode ?randn ?enc (VGAE_init\<lparr>training := False\<rparr>) () 0) = [[1, 2]]"
    by simp
  moreover from encode_eval_is_mean [of VGAE_init ?randn "[]" "[]" 0 ?enc "()"] t
  have "fst (VGAE_encode ?randn ?enc VGAE_init () 0) = [[2, 2 + exp 10]]"
    by (simp add: t_add_def t_mul_def t_exp_def clamp_max_def MAX_LOGVAR_def)
  ultimately show ?thesis using e t by simp
qed

subsection \<open>The log-variance of the KL loss\<close>

lemma last_encode_snoc:
  "last_encode (calls @ [c]) = (case c of Encode out \<Rightarrow> Some out | _ \<Rightarrow> last_encode calls)"
proof (induction calls)
  case Nil
  show ?case by (cases c) simp_all
next
  case (Cons a calls)
  then show ?case by (cases a; cases c) simp_all
qed

lemma apply_call_attrs:
  "attr_mu (fst (apply_call randn_like s c))
     = (case c of Encode out \<Rightarrow> Some (fst out) | _ \<Rightarrow> attr_mu (fst s))"
  "attr_logvar (fst (apply_call randn_like s c))
     = (case c of Encode out \<Rightarrow> Some (clamp_max (snd out) MAX_LOGVAR) | _ \<Rightarrow> attr_logvar (fst s))"
  by (cases s; cases c; simp add: encode_attrs)+

lemma vgae_calls_attrs:
  "attr_mu (fst (vgae_calls randn_like (VGAE_init, rng) calls)) = map_option fst (last_encode calls)
   \<and> attr_logvar (fst (vgae_calls randn_like (VGAE_init, rng) calls))
       = map_option (\<lambda>out. clamp_max (snd out) MAX_LOGVAR) (last_encode calls)"
proof (induction calls rule: rev_induct)
  case Nil
  show ?case by (simp add: vgae_calls_def VGAE_init_def)
next
  case (snoc c calls)
  have step: "vgae_calls randn_like (VGAE_init, rng) (calls @ [c])
      = apply_call randn_like (vgae_calls randn_like (VGAE_init, rng) calls) c"
    by (simp add: vgae_calls_def)
  show ?case
    unfolding step apply_call_attrs last_encode_snoc
    using snoc.IH by (cases c) simp_all
qed

text \<open>
  Claim C8. The log-variance that \<open>VGAE.kl_loss\<close> uses is at most \<open>MAX_LOGVAR = 10\<close> in every
  component. After any sequence of mode switches and \<open>encode\<close> calls on a new object the
  stored \<open>__mu__\<close> is the encoder's mean of the last \<open>encode\<close>, unclamped, and the stored
  \<open>__logvar__\<close> is the encoder's log-variance of the last \<open>encode\<close>, clamped. The value that
  \<open>kl_loss(mu, logvar)\<close> then returns is \<open>-0.5 * mean(sum(1 + l - m^2 - exp(l), dim=1))\<close>, where
  \<open>m\<close> is the passed \<open>mu\<close> as it is, or else the stored mean, and \<open>l\<close> is the passed \<open>logvar\<close>
  clamped to \<open>MAX_LOGVAR\<close>, or else the stored log-variance; \<open>kl_loss\<close> raises when an operand
  is neither passed nor stored. Every component of that \<open>l\<close> is at most \<open>MAX_LOGVAR\<close>.
\<close>

theorem kl_loss_logvar_bounded:
  fixes randn_like :: "'r \<Rightarrow> tensor \<Rightarrow> tensor \<times> 'r"
  shows "attr_mu (vgae_after randn_like rng calls) = map_option fst (last_encode calls)
    \<and> attr_logvar (vgae_after randn_like rng calls)
        = map_option (\<lambda>out. clamp_max (snd out) MAX_LOGVAR) (last_encode calls)
    \<and> kl_loss (vgae_after randn_like rng calls) mu logvar
        = (case (case mu of Some a \<Rightarrow> Some a | None \<Rightarrow> map_option fst (last_encode calls)) of
             None \<Rightarrow> Inl AttributeError
           | Some m \<Rightarrow>
               (case (case logvar of
                        Some b \<Rightarrow> Some (clamp_max b MAX_LOGVAR)
                      | None \<Rightarrow> map_option (\<lambda>out. clamp_max (snd out) MAX_LOGVAR)
                                 (last_encode calls)) of
                  None \<Rightarrow> Inl AttributeError
                | Some l \<Rightarrow>
                    Inr (- 0.5 * t_mean (map sum_list
                           (map2 (map2 (\<lambda>m l. 1 + l - m ^ 2 - exp l)) m l)))))
    \<and> (\<forall>l. (case logvar of
               Some b \<Rightarrow> Some (clamp_max b MAX_LOGVAR)
             | None \<Rightarrow> map_option (\<lambda>out. clamp_max (snd out) MAX_LOGVAR) (last_encode calls))
            = Some l
          \<longrightarrow> components_le l MAX_LOGVAR \<and> (\<forall>row \<in> set l. \<forall>x \<in> set row. x \<le> 10))"
proof -
  define self where "self = vgae_after randn_like rng calls"
  have attrs: "attr_mu self = map_option fst (last_encode calls)
     \<and> attr_logvar self = map_option (\<lambda>out. clamp_max (snd out) MAX_LOGVAR) (last_encode calls)"
    unfolding self_def vgae_after_def by (rule vgae_calls_attrs)
  then have mu: "attr_mu self = map_option fst (last_encode calls)"
    and lv: "attr_logvar self = map_option (\<lambda>out. clamp_max (snd out) MAX_LOGVAR) (last_encode calls)"
    by simp_all
  have loss: "kl_loss self mu logvar
        = (case (case mu of Some a \<Rightarrow> Some a | None \<Rightarrow> map_option fst (last_encode calls)) of
             None \<Rightarrow> Inl AttributeError
           | Some m \<Rightarrow>
               (case (case logvar of
                        Some b \<Rightarrow> Some (clamp_max b MAX_LOGVAR)
                      | None \<Rightarrow> map_option (\<lambda>out. clamp_max (snd out) MAX_LOGVAR)
                                 (last_encode calls)) of
                  None \<Rightarrow> Inl AttributeError
                | Some l \<Rightarrow>
                    Inr (- 0.5 * t_mean (map sum_list
                           (map2 (map2 (\<lambda>m l. 1 + l - m ^ 2 - exp l)) m l)))))"
    unfolding kl_loss_def kl_operands_def mu lv
    by (cases mu; cases logvar; cases "last_encode calls") simp_all
  have bound: "\<forall>l. (case logvar of
               Some b \<Rightarrow> Some (clamp_max b MAX_LOGVAR)
             | None \<Rightarrow> map_option (\<lambda>out. clamp_max (snd out) MAX_LOGVAR) (last_encode calls))
            = Some l
          \<longrightarrow> components_le l MAX_LOGVAR \<and> (\<forall>row \<in> set l. \<forall>x \<in> set row. x \<le> 10)"
  proof (intro allI impI)
    fix l
    assume "(case logvar of
               Some b \<Rightarrow> Some (clamp_max b MAX_LOGVAR)
             | None \<Rightarrow> map_option (\<lambda>out. clamp_max (snd out) MAX_LOGVAR) (last_encode calls))
            = Some l"
    then obtain t where "l = clamp_max t MAX_LOGVAR"
      by (cases logvar; cases "last_encode calls") auto
    then have c: "components_le l MAX_LOGVAR" by (simp add: clamp_max_le)
    then have "\<forall>row \<in> set l. \<forall>x \<in> set row. x \<le> 10"
      by (simp add: components_le_def MAX_LOGVAR_def)
    with c show "components_le l MAX_LOGVAR \<and> (\<forall>row \<in> set l. \<forall>x \<in> set row. x \<le> 10)" ..
  qed
  show ?thesis
    unfolding self_def [symmetric] using mu lv loss bound by (intro conjI)
qed

theorem kl_loss_logvar_bounded_witness:
  "kl_loss (vgae_after (\<lambda>(r::nat) t. (t, r + 1)) 0 [Encode ([[1, 2]], [[0, 12]]), Eval])
      None None = Inr (- 0.5 * (6 - exp 10))
   \<and> kl_loss (vgae_after (\<lambda>(r::nat) t. (t, r + 1)) 0 [Encode ([[1, 2]], [[0, 12]]), Eval])
      (Some [[30]]) (Some [[20]]) = Inr (- 0.5 * (- 889 - exp 10))
   \<and> components_le (clamp_max [[20]] MAX_LOGVAR) MAX_LOGVAR
   \<and> clamp_max [[20]] MAX_LOGVAR = [[10]]
   \<and> kl_loss (vgae_after (\<lambda>(r::nat) t. (t, r + 1)) 0 []) None None = Inl AttributeError"
proof -
  let ?randn = "\<lambda>(r::nat) (t::tensor). (t, r + 1)"
  let ?calls = "[Encode ([[1, 2]], [[0, 12]]), Eval]"
  have c: "clamp_max [[20]] MAX_LOGVAR = [[10]]" "clamp_max [[0, 12]] MAX_LOGVAR = [[0, 10]]"
    by (simp_all add: clamp_max_def MAX_LOGVAR_def)
  from kl_loss_logvar_bounded [of ?randn 0 ?calls None None]
  have a: "kl_loss (vgae_after ?randn 0 ?calls) None None = Inr (- 0.5 * (6 - exp 10))"
    by (simp add: c t_mean_def)
  from kl_loss_logvar_bounded [of ?randn 0 ?calls "Some [[30]]" "Some [[20]]"]
  have b: "kl_loss (vgae_after ?randn 0 ?calls) (Some [[30]]) (Some [[20]])
             = Inr (- 0.5 * (- 889 - exp 10))"
    and b': "components_le (clamp_max [[20]] MAX_LOGVAR) MAX_LOGVAR"
    by (simp_all add: c t_mean_def)
  from kl_loss_logvar_bounded [of ?randn 0 "[]" None None]
  have d: "kl_loss (vgae_after ?randn 0 []) None None = Inl AttributeError"
    by simp
  from a b b' c(1) d show ?thesis by (intro conjI)
qed

subsection \<open>Link-prediction test\<close>

lemma index_rows_valid:
  "\<forall>i \<in> set is. 0 \<le> i \<and> i < int (length z) \<Longrightarrow>
     index_rows z is = Inr (map (\<lambda>i. z ! nat i) is)"
  by (induction "is") (simp_all add: Let_def)

lemma decoder_valid:
  assumes "\<forall>(s, d) \<in> set edge_index. 0 \<le> s \<and> s < int (length z) \<and> 0 \<le> d \<and> d < int (length z)"
  shows "InnerProductDecoder_forward z edge_index True
           = Inr (map (\<lambda>(s, d). torch_sigmoid (sum_list (map2 (*) (z ! nat s) (z ! nat d)))) edge_index)"
proof -
  have s: "\<forall>i \<in> set (map fst edge_index). 0 \<le> i \<and> i < int (length z)"
    and d: "\<forall>i \<in> set (map snd edge_index). 0 \<le> i \<and> i < int (length z)"
    using assms by auto
  have "map sum_list (t_mul (map (\<lambda>i. z ! nat i) (map fst edge_index))
                            (map (\<lambda>i. z ! nat i) (map snd edge_index)))
          = map (\<lambda>(s, d). sum_list (map2 (*) (z ! nat s) (z ! nat d))) edge_index"
    by (induction edge_index) (simp_all add: t_mul_def split: prod.splits)
  then show ?thesis
    by (simp add: InnerProductDecoder_forward_def index_rows_valid [OF s] index_rows_valid [OF d]
          o_def split_def)
qed

text \<open>
  Claim C3. \<open>GAE.test(z, pos_edge_index, neg_edge_index)\<close> returns the pair
  \<open>(roc_auc_score(y, pred), average_precision_score(y, pred))\<close>, where \<open>y\<close> is one 1 per
  positive edge followed by one 0 per negative edge and \<open>pred\<close> is the decoder's sigmoid
  output for the positive edges followed by that for the negative edges: the call
  returns \<open>(auc, ap)\<close> exactly when the decoder and the two metrics return these values
  on these vectors. For the default inner-product decoder and valid vertex ids, the
  score of an edge \<open>(s, d)\<close> is the sigmoid of the inner product of rows \<open>s\<close> and \<open>d\<close> of \<open>z\<close>.
\<close>

theorem GAE_test_ground_truth_and_scores:
  "(GAE_test decoder roc_auc_score average_precision_score z pos neg = Inr (auc, ap)
      \<longleftrightarrow> (\<exists>pos_pred neg_pred.
             decoder z pos True = Inr pos_pred \<and> decoder z neg True = Inr neg_pred
             \<and> roc_auc_score (replicate (length pos) 1 @ replicate (length neg) 0)
                  (pos_pred @ neg_pred) = Inr auc
             \<and> average_precision_score (replicate (length pos) 1 @ replicate (length neg) 0)
                  (pos_pred @ neg_pred) = Inr ap))
   \<and> ((\<forall>(s, d) \<in> set (pos @ neg). 0 \<le> s \<and> s < int (length z) \<and> 0 \<le> d \<and> d < int (length z)) \<longrightarrow>
        InnerProductDecoder_forward z pos True
          = Inr (map (\<lambda>(s, d). torch_sigmoid (sum_list (map2 (*) (z ! nat s) (z ! nat d)))) pos)
        \<and> InnerProductDecoder_forward z neg True
          = Inr (map (\<lambda>(s, d). torch_sigmoid (sum_list (map2 (*) (z ! nat s) (z ! nat d)))) neg))"
proof (intro conjI impI)
  show "GAE_test decoder roc_auc_score average_precision_score z pos neg = Inr (auc, ap)
      \<longleftrightarrow> (\<exists>pos_pred neg_pred.
             decoder z pos True = Inr pos_pred \<and> decoder z neg True = Inr neg_pred
             \<and> roc_auc_score (replicate (length pos) 1 @ replicate (length neg) 0)
                  (pos_pred @ neg_pred) = Inr auc
             \<and> average_precision_score (replicate (length pos) 1 @ replicate (length neg) 0)
                  (pos_pred @ neg_pred) = Inr ap)"
    by (simp add: GAE_test_def new_ones_def new_zeros_def Let_def split: sum.splits)
next
  assume v: "\<forall>(s, d) \<in> set (pos @ neg). 0 \<le> s \<and> s < int (length z) \<and> 0 \<le> d \<and> d < int (length z)"
  then have "\<forall>(s, d) \<in> set pos. 0 \<le> s \<and> s < int (length z) \<and> 0 \<le> d \<and> d < int (length z)"
    by auto
  then show "InnerProductDecoder_forward z pos True
          = Inr (map (\<lambda>(s, d). torch_sigmoid (sum_list (map2 (*) (z ! nat s) (z ! nat d)))) pos)"
    by (rule decoder_valid)
  from v have "\<forall>(s, d) \<in> set neg. 0 \<le> s \<and> s < int (length z) \<and> 0 \<le> d \<and> d < int (length z)"
    by auto
  then show "InnerProductDecoder_forward z neg True
          = Inr (map (\<lambda>(s, d). torch_sigmoid (sum_list (map2 (*) (z ! nat s) (z ! nat d)))) neg)"
    by (rule decoder_valid)
qed

theorem GAE_test_ground_truth_and_scores_witness:
  "InnerProductDecoder_forward [[1, 0], [0, 1]] [(0, 1)] True = Inr [1 / 2]
   \<and> GAE_test InnerProductDecoder_forward (\<lambda>y pred. Inr (sum_list y)) (\<lambda>y pred. Inr (sum_list pred))
         [[1, 0], [0, 1]] [(0, 1)] [(1, 0)] = Inr (1, 1)"
proof -
  let ?z = "[[1, 0], [0, 1 :: real]]"
  let ?roc = "\<lambda>(y :: real list) (pred :: real list). (Inr (sum_list y) :: error + real)"
  let ?ap = "\<lambda>(y :: real list) (pred :: real list). (Inr (sum_list pred) :: error + real)"
  have v: "\<forall>(s, d) \<in> set ([(0, 1)] @ [(1, 0)]).
       0 \<le> s \<and> s < int (length ?z) \<and> 0 \<le> d \<and> d < int (length ?z)"
    by simp
  note inst = GAE_test_ground_truth_and_scores
    [of InnerProductDecoder_forward ?roc ?ap ?z "[(0, 1)]" "[(1, 0)]" 1 1]
  from inst v have p: "InnerProductDecoder_forward ?z [(0, 1)] True = Inr [1 / 2]"
    and n: "InnerProductDecoder_forward ?z [(1, 0)] True = Inr [1 / 2]"
    by (simp_all add: torch_sigmoid_def)
  from inst p n have "GAE_test InnerProductDecoder_forward ?roc ?ap ?z [(0, 1)] [(1, 0)] = Inr (1, 1)"
    by simp
  with p show ?thesis by (intro conjI)
qed

subsection \<open>Library calls that return\<close>

lemma returning_eq: "returning f m = (Inr (fst (f m)), snd (f m))"
  by (simp add: returning_def split: prod.splits)

lemma returning_on_eq: "returning_on f x y m = (Inr (fst (f x y m)), snd (f x y m))"
  by (simp add: returning_on_def returning_eq)

lemma py_get_nat: "i < length xs \<Longrightarrow> py_get xs (int i) = Inr (xs ! i)"
  by (simp add: py_get_def)

lemma length_py_range: "length (py_range n) = nat n"
  by (simp add: py_range_def)

lemma py_range_Suc: "py_range (int (Suc n)) = py_range (int n) @ [int n]"
  unfolding py_range_int by simp


lemma funpow_shift: "(f ^^ n) (f x) = f ((f ^^ n) x)"
  by (rule funpow_swap1 [symmetric])

subsection \<open>What \<open>train_stargazer_gnn\<close> does\<close>

lemma batch_loop_run:
  assumes "\<forall>i \<in> set is. i < length batches_x \<and> i < length batches_y"
  shows "batch_loop (returning_on step) batches_x batches_y (map int is) (epoch_loss, m)
    = (Inr (epoch_loss + sum_list (fst (epoch_run step (map (\<lambda>i. (batches_x ! i, batches_y ! i)) is) m))),
       snd (epoch_run step (map (\<lambda>i. (batches_x ! i, batches_y ! i)) is) m))"
  using assms
proof (induction "is" arbitrary: epoch_loss m)
  case Nil
  show ?case by simp
next
  case (Cons i "is")
  then have i: "i < length batches_x" "i < length batches_y" by simp_all
  obtain loss m' where s: "step (batches_x ! i) (batches_y ! i) m = (loss, m')"
    by (cases "step (batches_x ! i) (batches_y ! i) m")
  have rs: "returning_on step (batches_x ! i) (batches_y ! i) m = (Inr loss, m')"
    by (simp add: returning_on_eq s)
  obtain ls m'' where r: "epoch_run step (map (\<lambda>i. (batches_x ! i, batches_y ! i)) is) m' = (ls, m'')"
    by (cases "epoch_run step (map (\<lambda>i. (batches_x ! i, batches_y ! i)) is) m'")
  have "batch_loop (returning_on step) batches_x batches_y (map int is) (epoch_loss + loss, m')
     = (Inr (epoch_loss + loss + sum_list ls), m'')"
    using Cons.IH [of "epoch_loss + loss" m'] Cons.prems r by simp
  then show ?case
    by (simp add: py_get_nat [OF i(1)] py_get_nat [OF i(2)] rs s r add.assoc)
qed

lemma zip_nth_upt:
  "length xs = length ys \<Longrightarrow> map (\<lambda>i. (xs ! i, ys ! i)) [0..<length xs] = zip xs ys"
  by (rule nth_equalityI) simp_all

lemma batch_loop_all:
  assumes "length batches_y = length batches_x"
  shows "batch_loop (returning_on step) batches_x batches_y (py_range (int (length batches_x))) (0, m)
    = (Inr (sum_list (fst (epoch_run step (zip batches_x batches_y) m))),
       snd (epoch_run step (zip batches_x batches_y) m))"
proof -
  have v: "\<forall>i \<in> set [0..<length batches_x]. i < length batches_x \<and> i < length batches_y"
    using assms by simp
  show ?thesis
    using batch_loop_run [OF v, of step 0 m] zip_nth_upt [of batches_x batches_y] assms
    by (simp add: py_range_def)
qed

lemma epochs_state_Suc:
  "epochs_state step batches (Suc n) m
     = epochs_state step batches n (snd (epoch_run step batches m))"
  unfolding epochs_state_def
  using funpow_swap1 [of "\<lambda>m. snd (epoch_run step batches m)" n m] by simp

lemma epoch_loop_run:
  assumes "length batches_y = length batches_x" "batches_x \<noteq> []"
  shows "epoch_loop (returning_on step) batches_x batches_y epochs (epoch_losses, m, w)
      = (Inr (epoch_losses @ mean_batch_losses step (zip batches_x batches_y) (length epochs) m),
         epochs_state step (zip batches_x batches_y) (length epochs) m,
         w\<lparr>stdout := stdout w @ map2 EpochLoss epochs
              (mean_batch_losses step (zip batches_x batches_y) (length epochs) m)\<rparr>)"
proof (induction epochs arbitrary: epoch_losses m w)
  case Nil
  show ?case by (simp add: epochs_state_def)
next
  case (Cons epoch rest)
  obtain ls m1 where r: "epoch_run step (zip batches_x batches_y) m = (ls, m1)"
    by (cases "epoch_run step (zip batches_x batches_y) m")
  let ?mean = "sum_list ls / real (length batches_x)"
  let ?w1 = "py_print (EpochLoss epoch ?mean) w"
  have len: "length (zip batches_x batches_y) = length batches_x" using assms(1) by simp
  have st: "epochs_state step (zip batches_x batches_y) (length (epoch # rest)) m
      = epochs_state step (zip batches_x batches_y) (length rest) m1"
    using epochs_state_Suc [of step "zip batches_x batches_y" "length rest" m] by (simp add: r)
  have ms: "mean_batch_losses step (zip batches_x batches_y) (length (epoch # rest)) m
      = ?mean # mean_batch_losses step (zip batches_x batches_y) (length rest) m1"
    using assms(1) by (simp add: r)
  have "epoch_loop (returning_on step) batches_x batches_y (epoch # rest) (epoch_losses, m, w)
      = epoch_loop (returning_on step) batches_x batches_y rest (epoch_losses @ [?mean], m1, ?w1)"
    using assms(2) by (simp add: batch_loop_all [OF assms(1)] r Let_def)
  then show ?case
    unfolding Cons.IH [of "epoch_losses @ [?mean]" m1 ?w1] st ms
    by (simp add: py_print_def)
qed

lemma length_mean_batch_losses: "length (mean_batch_losses step batches n m) = n"
  by (induction n arbitrary: m) (simp_all add: Let_def split: prod.splits)

lemma get_batches_shape:
  assumes "b \<noteq> 0"
  shows "\<exists>bx bys. get_batches xs ys b = Inr (bx, bys) \<and> length bys = length bx
           \<and> length bx = nat (- ((- int (length xs)) div b) - 1)"
proof -
  let ?is = "py_range (- ((- int (length xs)) div b) - 1)"
  let ?bx = "map (\<lambda>i. py_slice xs (b * i) (min (b * (i + 1)) (int (length xs)))) ?is"
  let ?bys = "map (\<lambda>i. py_slice ys (b * i) (min (b * (i + 1)) (int (length xs)))) ?is"
  have "get_batches xs ys b = Inr (?bx, ?bys)"
    using assms by (simp add: get_batches_def math_ceil_div_def Let_def batches_loop_map)
  moreover have "length ?bys = length ?bx" by simp
  moreover have "length ?bx = nat (- ((- int (length xs)) div b) - 1)"
    by (simp add: length_py_range)
  ultimately show ?thesis by blast
qed

lemma length_py_slice_prefix: "length (py_slice xs 0 (int n)) = min (length xs) n"
  by (simp add: py_slice_def slice_index_def)

lemma training_batches:
  "\<exists>bx bys. get_batches (py_slice xs 0 8096) (py_slice ys 0 8096) 64 = Inr (bx, bys)
      \<and> length bys = length bx \<and> (8096 \<le> length xs \<longrightarrow> length bx = 126)"
proof -
  let ?xs = "py_slice xs 0 8096"
  from get_batches_shape [of 64 ?xs "py_slice ys 0 8096"]
  obtain bx bys where g: "get_batches ?xs (py_slice ys 0 8096) 64 = Inr (bx, bys)"
    and l: "length bys = length bx"
    and n: "length bx = nat (- ((- int (length ?xs)) div 64) - 1)"
    by auto
  have len: "length ?xs = min (length xs) 8096"
    using length_py_slice_prefix [of xs 8096] by simp
  have "length bx = 126" if "8096 \<le> length xs"
  proof -
    have "int (length ?xs) = 8096" using that len by simp
    then show ?thesis using n by simp
  qed
  with g l show ?thesis by blast
qed

lemma train_stargazer_gnn_run:
  assumes "8096 \<le> length xs"
  shows "\<exists>bx bys.
      get_batches (py_slice xs 0 8096) (py_slice ys 0 8096) 64 = Inr (bx, bys)
      \<and> length bx = 126 \<and> length bys = 126
      \<and> train_stargazer_gnn (returning adam) (returning_on step) xs ys gnn num_epochs w
          = (Inr (mean_batch_losses step (zip bx bys) (nat num_epochs) (snd (adam gnn))),
             epochs_state step (zip bx bys) (nat num_epochs) (snd (adam gnn)),
             w\<lparr>stdout := stdout w @ map2 EpochLoss (py_range num_epochs)
                  (mean_batch_losses step (zip bx bys) (nat num_epochs) (snd (adam gnn)))\<rparr>)"
proof -
  from training_batches [of xs ys] assms
  obtain bx bys where g: "get_batches (py_slice xs 0 8096) (py_slice ys 0 8096) 64 = Inr (bx, bys)"
    and l: "length bys = length bx" and n: "length bx = 126"
    by blast
  have ne: "bx \<noteq> []" using n by auto
  have "train_stargazer_gnn (returning adam) (returning_on step) xs ys gnn num_epochs w
      = epoch_loop (returning_on step) bx bys (py_range num_epochs) ([], snd (adam gnn), w)"
    using g by (simp add: train_stargazer_gnn_def returning_eq)
  then have "train_stargazer_gnn (returning adam) (returning_on step) xs ys gnn num_epochs w
          = (Inr (mean_batch_losses step (zip bx bys) (nat num_epochs) (snd (adam gnn))),
             epochs_state step (zip bx bys) (nat num_epochs) (snd (adam gnn)),
             w\<lparr>stdout := stdout w @ map2 EpochLoss (py_range num_epochs)
                  (mean_batch_losses step (zip bx bys) (nat num_epochs) (snd (adam gnn)))\<rparr>)"
    unfolding epoch_loop_run [OF l ne] by (simp add: length_py_range)
  with g l n show ?thesis by simp
qed




subsection \<open>What \<open>train\<close> does\<close>

lemma length_masked:
  "length xs = length msk \<Longrightarrow> length (masked xs msk) = length (filter id msk)"
  unfolding masked_def by (induction xs msk rule: list_induct2) simp_all

lemma mask_select_fits: "length msk = length xs \<Longrightarrow> mask_select xs msk = Inr (masked xs msk)"
  by (simp add: mask_select_def)

lemma get_accuracy_fits:
  assumes "length pred = length true" "true \<noteq> []"
  shows "get_accuracy (rowwise am) pred true
    = Inr (real (length (filter id (map2 (=) (map am pred) true))) / real (length true))"
  using assms by (simp add: get_accuracy_def rowwise_def torch_eq_def Let_def)

lemma train_loop_run:
  assumes fw: "\<forall>m. length (fst (fwd m)) = length labels"
    and tm: "length train_mask = length labels"
    and vm: "length val_mask = length labels"
    and v: "True \<in> set val_mask"
  shows "\<exists>out' logits' lines.
      train_loop \<lparr>set_train = to_train, forward = returning fwd, learn = returning_on lrn,
                  set_eval = to_eval, sage_torch_max = rowwise am\<rparr>
          labels train_mask val_mask epochs (out, logits, m, w)
        = (None, out', logits',
           ((\<lambda>m. snd (snd (snd (sage_epoch to_train fwd lrn to_eval labels train_mask m))))
              ^^ length epochs) m,
           w\<lparr>stdout := stdout w @ lines\<rparr>)
      \<and> length logits' = length logits + length epochs
      \<and> map printed_epoch lines = map Some epochs
      \<and> (epochs = [] \<longrightarrow> out' = out) \<and> (epochs \<noteq> [] \<longrightarrow> out' \<noteq> None)"
proof -
  define lib where "lib = \<lparr>set_train = to_train, forward = returning fwd,
      learn = returning_on lrn, set_eval = to_eval, sage_torch_max = rowwise am\<rparr>"
  define E where "E = (\<lambda>m. snd (snd (snd (sage_epoch to_train fwd lrn to_eval labels train_mask m))))"
  have "\<exists>out' logits' lines.
      train_loop lib labels train_mask val_mask epochs (out, logits, m, w)
        = (None, out', logits', (E ^^ length epochs) m, w\<lparr>stdout := stdout w @ lines\<rparr>)
      \<and> length logits' = length logits + length epochs
      \<and> map printed_epoch lines = map Some epochs
      \<and> (epochs = [] \<longrightarrow> out' = out) \<and> (epochs \<noteq> [] \<longrightarrow> out' \<noteq> None)"
  proof (induction epochs arbitrary: out logits m w)
    case Nil
    have "w = w\<lparr>stdout := stdout w @ []\<rparr>" by simp
    then show ?case by (intro exI [where x = "[]"] exI [where x = out] exI [where x = logits]) simp
  next
    case (Cons epoch rest)
    obtain o1 m1 where f: "fwd (to_train m) = (o1, m1)" by (cases "fwd (to_train m)")
    have lo: "length o1 = length labels" using fw [rule_format, of "to_train m"] by (simp add: f)
    obtain loss m2 where l: "lrn (masked o1 train_mask) (masked labels train_mask) m1 = (loss, m2)"
      by (cases "lrn (masked o1 train_mask) (masked labels train_mask) m1")
    have rf: "forward lib (set_train lib m) = (Inr o1, m1)"
      by (simp add: lib_def returning_eq f)
    have rl: "learn lib (masked o1 train_mask) (masked labels train_mask) m1 = (Inr loss, m2)"
      by (simp add: lib_def returning_on_eq l)
    have se: "set_eval lib m2 = to_eval m2" and ra: "sage_torch_max lib = rowwise am" by (simp_all add: lib_def)
    have ms: "mask_select o1 train_mask = Inr (masked o1 train_mask)"
      "mask_select labels train_mask = Inr (masked labels train_mask)"
      "mask_select o1 val_mask = Inr (masked o1 val_mask)"
      "mask_select labels val_mask = Inr (masked labels val_mask)"
      using lo tm vm by (simp_all add: mask_select_fits)
    have "filter id val_mask \<noteq> []" using v by (auto simp: filter_empty_conv)
    then have ne: "masked labels val_mask \<noteq> []"
      using length_masked [of labels val_mask] vm by auto
    have eq: "length (masked o1 val_mask) = length (masked labels val_mask)"
      using length_masked [of o1 val_mask] length_masked [of labels val_mask] lo vm by simp
    obtain acc where a: "get_accuracy (rowwise am) (masked o1 val_mask) (masked labels val_mask)
        = Inr acc"
      using get_accuracy_fits [OF eq ne] by blast
    have e: "E m = to_eval m2" by (simp add: E_def sage_epoch_def f l)
    let ?w1 = "py_print (EpochAccuracy epoch loss acc) w"
    from Cons.IH [of "Some o1" "logits @ [masked o1 train_mask]" "to_eval m2" ?w1]
    obtain out' logits' lines where
      ih: "train_loop lib labels train_mask val_mask rest
             (Some o1, logits @ [masked o1 train_mask], to_eval m2, ?w1)
           = (None, out', logits', (E ^^ length rest) (to_eval m2), ?w1\<lparr>stdout := stdout ?w1 @ lines\<rparr>)"
      and len: "length logits' = length (logits @ [masked o1 train_mask]) + length rest"
      and ep: "map printed_epoch lines = map Some rest"
      and o': "rest = [] \<longrightarrow> out' = Some o1" "rest \<noteq> [] \<longrightarrow> out' \<noteq> None"
      by blast
    have st: "(E ^^ length (epoch # rest)) m = (E ^^ length rest) (to_eval m2)"
      unfolding e [symmetric] by (simp add: funpow_shift)
    have ww: "?w1\<lparr>stdout := stdout ?w1 @ lines\<rparr>
        = w\<lparr>stdout := stdout w @ (EpochAccuracy epoch loss acc # lines)\<rparr>"
      by (simp add: py_print_def)
    have "train_loop lib labels train_mask val_mask (epoch # rest) (out, logits, m, w)
          = (None, out', logits', (E ^^ length (epoch # rest)) m,
             w\<lparr>stdout := stdout w @ (EpochAccuracy epoch loss acc # lines)\<rparr>)"
      unfolding st ww [symmetric] ih [symmetric]
      by (simp add: rf ms rl se ra a Let_def)
    moreover have "length logits' = length logits + length (epoch # rest)" using len by simp
    moreover have "map printed_epoch (EpochAccuracy epoch loss acc # lines) = map Some (epoch # rest)"
      using ep by simp
    moreover have "out' \<noteq> None" using o' by (cases "rest = []") simp_all
    ultimately show ?case by blast
  qed
  then show ?thesis unfolding lib_def E_def .
qed

lemma train_run:
  assumes fw: "\<forall>m. length (fst (fwd m)) = length labels"
    and tm: "length train_mask = length labels"
    and vm: "length val_mask = length labels"
    and v: "True \<in> set val_mask"
  shows "\<exists>out logits lines.
      train \<lparr>set_train = to_train, forward = returning fwd, learn = returning_on lrn,
             set_eval = to_eval, sage_torch_max = rowwise am\<rparr>
          labels train_mask val_mask model n_epochs w
        = ((if 0 < n_epochs
            then Inr (((\<lambda>m. snd (snd (snd (sage_epoch to_train fwd lrn to_eval labels train_mask m))))
                         ^^ nat n_epochs) model, out, logits)
            else Inl UnboundLocalError),
           ((\<lambda>m. snd (snd (snd (sage_epoch to_train fwd lrn to_eval labels train_mask m))))
              ^^ nat n_epochs) model,
           w\<lparr>stdout := stdout w @ lines @ [Text ''training complete'']\<rparr>)
      \<and> length logits = nat n_epochs
      \<and> map printed_epoch lines = map Some (py_range n_epochs)"
proof -
  define lib where "lib = \<lparr>set_train = to_train, forward = returning fwd,
      learn = returning_on lrn, set_eval = to_eval, sage_torch_max = rowwise am\<rparr>"
  define E where "E = (\<lambda>m. snd (snd (snd (sage_epoch to_train fwd lrn to_eval labels train_mask m))))"
  from train_loop_run [OF assms, of to_train lrn to_eval am "py_range n_epochs" None "[]" model w]
  obtain out' logits' lines where
    l: "train_loop lib labels train_mask val_mask (py_range n_epochs) (None, [], model, w)
          = (None, out', logits', (E ^^ nat n_epochs) model, w\<lparr>stdout := stdout w @ lines\<rparr>)"
    and len0: "length logits' = length ([] :: tensor list) + length (py_range n_epochs)"
    and ep: "map printed_epoch lines = map Some (py_range n_epochs)"
    and o: "py_range n_epochs = [] \<longrightarrow> out' = None" "py_range n_epochs \<noteq> [] \<longrightarrow> out' \<noteq> None"
    unfolding lib_def E_def length_py_range by blast
  have len: "length logits' = nat n_epochs" using len0 by (simp add: length_py_range)
  have pr: "py_range n_epochs = [] \<longleftrightarrow> n_epochs \<le> 0" by (simp add: py_range_def)
  have ww: "py_print (Text ''training complete'') (w\<lparr>stdout := stdout w @ lines\<rparr>)
      = w\<lparr>stdout := stdout w @ lines @ [Text ''training complete'']\<rparr>"
    by (simp add: py_print_def)
  have "\<exists>out logits lines.
      train lib labels train_mask val_mask model n_epochs w
        = ((if 0 < n_epochs then Inr ((E ^^ nat n_epochs) model, out, logits)
            else Inl UnboundLocalError),
           (E ^^ nat n_epochs) model,
           w\<lparr>stdout := stdout w @ lines @ [Text ''training complete'']\<rparr>)
      \<and> length logits = nat n_epochs
      \<and> map printed_epoch lines = map Some (py_range n_epochs)"
  proof (cases out')
    case None
    then have n: "n_epochs \<le> 0" using o pr by blast
    have "train lib labels train_mask val_mask model n_epochs w
        = (Inl UnboundLocalError, (E ^^ nat n_epochs) model,
           w\<lparr>stdout := stdout w @ lines @ [Text ''training complete'']\<rparr>)"
      unfolding ww [symmetric] using l None by (simp add: train_def)
    then show ?thesis using ep n len by auto
  next
    case (Some t)
    then have n: "0 < n_epochs" using o pr by force
    have "train lib labels train_mask val_mask model n_epochs w
        = (Inr ((E ^^ nat n_epochs) model, t, logits'), (E ^^ nat n_epochs) model,
           w\<lparr>stdout := stdout w @ lines @ [Text ''training complete'']\<rparr>)"
      unfolding ww [symmetric] using l Some by (simp add: train_def)
    then show ?thesis using ep n len by auto
  qed
  then show ?thesis unfolding lib_def E_def .
qed



subsection \<open>What \<open>train_gae\<close> and \<open>train_vgae\<close> do\<close>

lemma event_log_append_event:
  "event_log (append_event dir tag v step w) dir = event_log w dir @ [(tag, v, step)]"
  by (simp add: append_event_def event_log_def)

lemma files_append_event: "p \<noteq> dir \<Longrightarrow> files (append_event dir tag v step w) p = files w p"
  by (simp add: append_event_def)

lemma event_log_py_print: "event_log (py_print line w) dir = event_log w dir"
  by (simp add: py_print_def event_log_def)

lemma add_scalar_returns:
  "add_scalar (returning_writer dir) tag v step w = (Inr (), append_event dir tag v step w)"
  by (simp add: add_scalar_def returning_writer_def)

lemma add_scalar_files:
  "p \<noteq> log_dir writer \<Longrightarrow> files (snd (add_scalar writer tag v step w)) p = files w p"
  by (simp add: add_scalar_def files_append_event split: option.splits)

lemma log_and_test_files:
  assumes "p \<noteq> log_dir writer"
  shows "files (snd (snd (log_and_test eval writer epoch loss m w))) p = files w p"
proof -
  note f = add_scalar_files [OF assms]
  obtain x1 w1 where a1: "add_scalar writer ''loss'' loss epoch w = (x1, w1)"
    by (cases "add_scalar writer ''loss'' loss epoch w")
  have f1: "files w1 p = files w p" using f [of "''loss''" loss epoch w] by (simp add: a1)
  show ?thesis
  proof (cases x1)
    case (Inl e)
    then show ?thesis by (simp add: log_and_test_def a1 f1)
  next
    case l1: (Inr u1)
    obtain y m2 where ev: "eval m = (y, m2)" by (cases "eval m")
    show ?thesis
    proof (cases y)
      case (Inl e)
      then show ?thesis by (simp add: log_and_test_def a1 l1 ev f1)
    next
      case (Inr r)
      obtain auc ap where r: "r = (auc, ap)" by (cases r)
      obtain x2 w2 where a2: "add_scalar writer ''AUC'' auc epoch w1 = (x2, w2)"
        by (cases "add_scalar writer ''AUC'' auc epoch w1")
      have f2: "files w2 p = files w p" using f [of "''AUC''" auc epoch w1] by (simp add: a2 f1)
      show ?thesis
      proof (cases x2)
        case (Inl e)
        then show ?thesis by (simp add: log_and_test_def a1 l1 ev Inr r a2 f2)
      next
        case l2: (Inr u2)
        obtain x3 w3 where a3: "add_scalar writer ''AP'' ap epoch w2 = (x3, w3)"
          by (cases "add_scalar writer ''AP'' ap epoch w2")
        have f3: "files w3 p = files w p" using f [of "''AP''" ap epoch w2] by (simp add: a3 f2)
        show ?thesis
          by (cases x3) (simp_all add: log_and_test_def a1 l1 ev Inr r a2 l2 a3 f3 py_print_def)
      qed
    qed
  qed
qed

lemma log_and_test_returning:
  assumes "eval m = ((auc, ap), m2)"
  shows "log_and_test (returning eval) (returning_writer dir) epoch loss m w
    = (Inr (Some auc, Some ap), m2,
        (if (epoch + 1) mod 100 = 0
         then py_print (EpochMetrics epoch auc ap)
                (append_event dir ''AP'' ap epoch (append_event dir ''AUC'' auc epoch
                   (append_event dir ''loss'' loss epoch w)))
         else append_event dir ''AP'' ap epoch (append_event dir ''AUC'' auc epoch
                   (append_event dir ''loss'' loss epoch w))))"
  using assms by (simp add: log_and_test_def returning_def add_scalar_returns)

lemma gae_loop_Cons:
  assumes "step m = (loss, m1)" "eval m1 = ((auc, ap), m2)"
  shows "gae_loop (returning step) (returning eval) (returning_writer dir) (epoch # rest) (r, m, w)
    = gae_loop (returning step) (returning eval) (returning_writer dir) rest ((Some auc, Some ap), m2,
        (if (epoch + 1) mod 100 = 0
         then py_print (EpochMetrics epoch auc ap)
                (append_event dir ''AP'' ap epoch (append_event dir ''AUC'' auc epoch
                   (append_event dir ''loss'' loss epoch w)))
         else append_event dir ''AP'' ap epoch (append_event dir ''AUC'' auc epoch
                   (append_event dir ''loss'' loss epoch w))))"
  by (simp add: returning_def assms(1) log_and_test_returning [where eval = eval, OF assms(2)])

lemma gae_loop_run:
  "\<exists>r' w'. gae_loop (returning step) (returning eval) (returning_writer dir) epochs (r, m, w)
       = (Inr r', ((\<lambda>m. snd (eval (snd (step m)))) ^^ length epochs) m, w')
     \<and> event_log w' dir = event_log w dir @ logged_scalars step eval epochs m
     \<and> (epochs = [] \<longrightarrow> r' = r)"
proof -
  define E where "E = (\<lambda>m. snd (eval (snd (step m))))"
  have "\<exists>r' w'. gae_loop (returning step) (returning eval) (returning_writer dir) epochs (r, m, w)
       = (Inr r', (E ^^ length epochs) m, w')
     \<and> event_log w' dir = event_log w dir @ logged_scalars step eval epochs m
     \<and> (epochs = [] \<longrightarrow> r' = r)"
  proof (induction epochs arbitrary: r m w)
    case Nil
    show ?case by simp
  next
    case (Cons epoch rest)
    obtain loss m1 where s: "step m = (loss, m1)" by (cases "step m")
    obtain auc ap m2 where e: "eval m1 = ((auc, ap), m2)" by (cases "eval m1") auto
    let ?w3 = "append_event dir ''AP'' ap epoch (append_event dir ''AUC'' auc epoch
                     (append_event dir ''loss'' loss epoch w))"
    let ?w4 = "if (epoch + 1) mod 100 = 0 then py_print (EpochMetrics epoch auc ap) ?w3 else ?w3"
    have log4: "event_log ?w4 dir
        = event_log w dir @ [(''loss'', loss, epoch), (''AUC'', auc, epoch), (''AP'', ap, epoch)]"
      by (simp add: event_log_py_print event_log_append_event)
    from Cons.IH [of "(Some auc, Some ap)" m2 ?w4]
    obtain r' w' where ih: "gae_loop (returning step) (returning eval) (returning_writer dir) rest
           ((Some auc, Some ap), m2, ?w4) = (Inr r', (E ^^ length rest) m2, w')"
      and log: "event_log w' dir = event_log ?w4 dir @ logged_scalars step eval rest m2"
      by blast
    have m2: "m2 = E m" by (simp add: E_def s e)
    have "(E ^^ length (epoch # rest)) m = (E ^^ length rest) m2"
      unfolding m2 by (simp add: funpow_shift)
    then have "gae_loop (returning step) (returning eval) (returning_writer dir) (epoch # rest) (r, m, w)
         = (Inr r', (E ^^ length (epoch # rest)) m, w')"
      unfolding gae_loop_Cons [where step = step and eval = eval, OF s e] ih by simp
    moreover have "event_log w' dir = event_log w dir @ logged_scalars step eval (epoch # rest) m"
      unfolding log log4 by (simp add: s e)
    ultimately show ?case by blast
  qed
  then show ?thesis unfolding E_def .
qed

lemma gae_loop_files:
  "p \<noteq> log_dir writer \<Longrightarrow> files (snd (snd (gae_loop step eval writer epochs (r, m, w)))) p = files w p"
proof (induction epochs arbitrary: r m w)
  case Nil
  show ?case by simp
next
  case (Cons epoch rest)
  obtain x m1 where s: "step m = (x, m1)" by (cases "step m")
  show ?case
  proof (cases x)
    case (Inl e)
    then show ?thesis by (simp add: s)
  next
    case (Inr loss)
    obtain y m2 w2 where l: "log_and_test eval writer epoch loss m1 w = (y, m2, w2)"
      by (cases "log_and_test eval writer epoch loss m1 w")
    have f2: "files w2 p = files w p"
      using log_and_test_files [OF Cons.prems, of eval epoch loss m1 w] by (simp add: l)
    show ?thesis
    proof (cases y)
      case (Inl e)
      then show ?thesis using f2 by (simp add: s Inr l)
    next
      case r2: (Inr r')
      show ?thesis using Cons.IH [OF Cons.prems, of r' m2 w2] f2 by (simp add: s Inr l r2)
    qed
  qed
qed

lemma gae_loop_append:
  "gae_loop step eval writer (es @ es') s
     = (case gae_loop step eval writer es s of
          (Inl e, st) \<Rightarrow> (Inl e, st)
        | (Inr r, st) \<Rightarrow> gae_loop step eval writer es' (r, st))"
proof (induction es arbitrary: s)
  case Nil
  show ?case by (cases s) simp
next
  case (Cons epoch rest)
  obtain r m w where t: "s = (r, m, w)" by (cases s)
  obtain x m1 where st: "step m = (x, m1)" by (cases "step m")
  show ?case
  proof (cases x)
    case (Inl e)
    then show ?thesis by (simp add: t st)
  next
    case (Inr loss)
    obtain y m2 w2 where l: "log_and_test eval writer epoch loss m1 w = (y, m2, w2)"
      by (cases "log_and_test eval writer epoch loss m1 w")
    show ?thesis
    proof (cases y)
      case (Inl e)
      then show ?thesis by (simp add: t st Inr l)
    next
      case r2: (Inr r')
      show ?thesis using Cons.IH [of "(r', m2, w2)"] by (simp add: t st Inr l r2)
    qed
  qed
qed

lemma logged_scalars_append:
  "logged_scalars step eval (es @ es') m
     = logged_scalars step eval es m
       @ logged_scalars step eval es' (((\<lambda>m. snd (eval (snd (step m)))) ^^ length es) m)"
proof -
  define E where "E = (\<lambda>m. snd (eval (snd (step m))))"
  have "logged_scalars step eval (es @ es') m
     = logged_scalars step eval es m @ logged_scalars step eval es' ((E ^^ length es) m)"
  proof (induction es arbitrary: m)
    case Nil
    show ?case by simp
  next
    case (Cons epoch rest)
    obtain loss m1 where st: "step m = (loss, m1)" by (cases "step m")
    obtain auc ap m2 where e: "eval m1 = ((auc, ap), m2)" by (cases "eval m1") auto
    have m2: "m2 = E m" by (simp add: E_def st e)
    have "(E ^^ length (epoch # rest)) m = (E ^^ length rest) m2"
      unfolding m2 by (simp add: funpow_shift)
    then show ?case using Cons.IH [of m2] by (simp add: st e del: funpow.simps)
  qed
  then show ?thesis unfolding E_def .
qed

lemma length_logged_scalars: "length (logged_scalars step eval es m) = 3 * length es"
  by (induction es arbitrary: m) (simp_all add: Let_def split: prod.splits)

lemma steps_logged_scalars:
  "map (\<lambda>(tag, v, step). step) (logged_scalars step eval es m) = concat (map (\<lambda>e. [e, e, e]) es)"
  by (induction es arbitrary: m) (simp_all add: Let_def split: prod.splits)

lemma gae_run_200:
  "\<exists>auc ap w'.
      gae_loop (returning step) (returning eval) (returning_writer dir) (py_range 200) ((None, None), m, w)
        = (Inr (Some auc, Some ap), ((\<lambda>m. snd (eval (snd (step m)))) ^^ 200) m, w')
      \<and> (auc, ap) = fst (eval (snd (step (((\<lambda>m. snd (eval (snd (step m)))) ^^ 199) m))))
      \<and> event_log w' dir = event_log w dir @ logged_scalars step eval (py_range 200) m
      \<and> drop 598 (logged_scalars step eval (py_range 200) m)
          = [(''AUC'', auc, 199), (''AP'', ap, 199)]"
proof -
  define E where "E = (\<lambda>m. snd (eval (snd (step m))))"
  define m199 where "m199 = (E ^^ 199) m"
  have r200: "py_range 200 = py_range 199 @ [199]"
    using py_range_Suc [of 199] by simp
  from gae_loop_run [of step eval dir "py_range 199" "(None, None)" m w]
  obtain r1 w1 where l1: "gae_loop (returning step) (returning eval) (returning_writer dir) (py_range 199)
        ((None, None), m, w) = (Inr r1, m199, w1)"
    and log1: "event_log w1 dir = event_log w dir @ logged_scalars step eval (py_range 199) m"
    unfolding m199_def E_def by (auto simp: length_py_range)
  obtain loss m1 where st: "step m199 = (loss, m1)" by (cases "step m199")
  obtain auc ap m2 where e: "eval m1 = ((auc, ap), m2)" by (cases "eval m1") auto
  have "(E ^^ Suc 199) m = E m199" unfolding m199_def by (simp only: funpow.simps o_apply)
  moreover have "E m199 = m2" by (simp add: E_def st e)
  moreover have "(200::nat) = Suc 199" by simp
  ultimately have m2: "m2 = (E ^^ 200) m" by (simp only:)
  let ?w3 = "append_event dir ''AP'' ap 199 (append_event dir ''AUC'' auc 199
                   (append_event dir ''loss'' loss 199 w1))"
  let ?w4 = "py_print (EpochMetrics 199 auc ap) ?w3"
  have "gae_loop (returning step) (returning eval) (returning_writer dir) (py_range 200) ((None, None), m, w)
      = gae_loop (returning step) (returning eval) (returning_writer dir) [199] (r1, m199, w1)"
    unfolding r200 by (simp add: gae_loop_append l1 del: gae_loop.simps)
  also have "\<dots> = (Inr (Some auc, Some ap), m2, ?w4)"
    unfolding gae_loop_Cons [where step = step and eval = eval, OF st e] by simp
  finally have run: "gae_loop (returning step) (returning eval) (returning_writer dir) (py_range 200)
      ((None, None), m, w) = (Inr (Some auc, Some ap), m2, ?w4)" .
  have res: "(auc, ap) = fst (eval (snd (step m199)))" by (simp add: st e)
  have last: "logged_scalars step eval [199] m199
      = [(''loss'', loss, 199), (''AUC'', auc, 199), (''AP'', ap, 199)]"
    by (simp add: st e)
  have "logged_scalars step eval (py_range 199 @ [199]) m
      = logged_scalars step eval (py_range 199) m @ logged_scalars step eval [199] m199"
    unfolding m199_def E_def
    using logged_scalars_append [of step eval "py_range 199" "[199]" m]
    by (simp only: length_py_range) simp
  then have all: "logged_scalars step eval (py_range 200) m
      = logged_scalars step eval (py_range 199) m
        @ [(''loss'', loss, 199), (''AUC'', auc, 199), (''AP'', ap, 199)]"
    unfolding r200 last .
  have "length (logged_scalars step eval (py_range 199) m) = 597"
    by (simp add: length_logged_scalars length_py_range)
  then have dr: "drop 598 (logged_scalars step eval (py_range 200) m)
      = [(''AUC'', auc, 199), (''AP'', ap, 199)]"
    unfolding all by simp
  have log: "event_log ?w4 dir = event_log w dir @ logged_scalars step eval (py_range 200) m"
    unfolding all by (simp add: event_log_py_print event_log_append_event log1)
  from run res log dr show ?thesis unfolding m2 m199_def E_def by blast
qed

lemma train_gae_run:
  "\<exists>auc ap w'.
      train_gae (returning step) (returning eval) (returning_writer dir) m w
        = (Inr (Some auc, Some ap), ((\<lambda>m. snd (eval (snd (step m)))) ^^ 200) m, w')
      \<and> (auc, ap) = fst (eval (snd (step (((\<lambda>m. snd (eval (snd (step m)))) ^^ 199) m))))
      \<and> event_log w' dir = event_log w dir @ logged_scalars step eval (py_range 200) m
      \<and> drop 598 (logged_scalars step eval (py_range 200) m)
          = [(''AUC'', auc, 199), (''AP'', ap, 199)]"
  unfolding train_gae_def
  using gae_run_200 [of step eval dir m "py_print (Text ''training gae'') w"]
  by (simp only: event_log_py_print)

lemma train_gae_files:
  "p \<noteq> log_dir writer \<Longrightarrow> files (snd (snd (train_gae step eval writer m w))) p = files w p"
  unfolding train_gae_def by (simp add: gae_loop_files py_print_def)

lemma vgae_loop_as_gae:
  assumes "n_nodes \<noteq> 0"
  shows "vgae_loop (returning recon) (returning kl) (\<lambda>loss. returning (descend loss)) eval writer
           n_nodes epochs (r, m, w)
         = gae_loop (returning (vgae_step recon kl descend n_nodes)) eval writer epochs (r, m, w)"
proof (induction epochs arbitrary: r m w)
  case Nil
  show ?case by simp
next
  case (Cons epoch rest)
  obtain recon_loss m1 where a: "recon m = (recon_loss, m1)" by (cases "recon m")
  obtain kl_term m2 where b: "kl m1 = (kl_term, m2)" by (cases "kl m1")
  obtain u m3 where c: "descend (recon_loss + (1 / real n_nodes) * kl_term) m2 = (u, m3)"
    by (cases "descend (recon_loss + (1 / real n_nodes) * kl_term) m2")
  have s: "vgae_step recon kl descend n_nodes m = (recon_loss + (1 / real n_nodes) * kl_term, m3)"
    using c by (simp add: vgae_step_def a b Let_def)
  have ra: "returning recon m = (Inr recon_loss, m1)" by (simp add: returning_def a)
  have rb: "returning kl m1 = (Inr kl_term, m2)" by (simp add: returning_def b)
  have rc: "returning (descend (recon_loss + (1 / real n_nodes) * kl_term)) m2 = (Inr u, m3)"
    using c by (simp add: returning_def)
  have rs: "returning (vgae_step recon kl descend n_nodes) m
      = (Inr (recon_loss + (1 / real n_nodes) * kl_term), m3)"
    using s by (simp add: returning_def)
  obtain v m4 w4 where t: "log_and_test eval writer epoch
      (recon_loss + (1 / real n_nodes) * kl_term) m3 w = (v, m4, w4)"
    by (cases "log_and_test eval writer epoch (recon_loss + (1 / real n_nodes) * kl_term) m3 w")
  show ?case
  proof (cases v)
    case (Inl e)
    then show ?thesis using assms rc rs t by (simp add: ra rb Let_def)
  next
    case (Inr r')
    then show ?thesis using assms rc rs t Cons.IH [of r' m4 w4] by (simp add: ra rb Let_def)
  qed
qed

lemma vgae_loop_files:
  "p \<noteq> log_dir writer \<Longrightarrow>
     files (snd (snd (vgae_loop recon kl descend eval writer n_nodes epochs (r, m, w)))) p = files w p"
proof (induction epochs arbitrary: r m w)
  case Nil
  show ?case by simp
next
  case (Cons epoch rest)
  have l: "files (snd (snd (log_and_test eval writer epoch loss m' w))) p = files w p" for loss m'
    by (rule log_and_test_files [OF Cons.prems])
  show ?case
  proof (cases "recon m")
    case (Pair x m1)
    show ?thesis
    proof (cases x)
      case (Inl e)
      then show ?thesis by (simp add: Pair)
    next
      case (Inr recon_loss)
      obtain y m2 where b: "kl m1 = (y, m2)" by (cases "kl m1")
      show ?thesis
      proof (cases y)
        case (Inl e)
        then show ?thesis by (simp add: Pair Inr b)
      next
        case k: (Inr kl_term)
        show ?thesis
        proof (cases "n_nodes = 0")
          case True
          then show ?thesis by (simp add: Pair Inr b k)
        next
          case False
          obtain z m3 where c: "descend (recon_loss + (1 / real n_nodes) * kl_term) m2 = (z, m3)"
            by (cases "descend (recon_loss + (1 / real n_nodes) * kl_term) m2")
          show ?thesis
          proof (cases z)
            case (Inl e)
            then show ?thesis using False c by (simp add: Pair Inr b k Let_def)
          next
            case d: (Inr u)
            obtain v m4 w4 where t: "log_and_test eval writer epoch
                (recon_loss + (1 / real n_nodes) * kl_term) m3 w = (v, m4, w4)"
              by (cases "log_and_test eval writer epoch
                (recon_loss + (1 / real n_nodes) * kl_term) m3 w")
            have f4: "files w4 p = files w p"
              using l [of "recon_loss + (1 / real n_nodes) * kl_term" m3] t by simp
            show ?thesis
            proof (cases v)
              case (Inl e)
              then show ?thesis using False f4 c t by (simp add: Pair Inr b k d Let_def)
            next
              case r2: (Inr r')
              show ?thesis
                using False f4 Cons.IH [OF Cons.prems, of r' m4 w4] c t
                by (simp add: Pair Inr b k d r2 Let_def)
            qed
          qed
        qed
      qed
    qed
  qed
qed

lemma train_vgae_run:
  assumes "n_nodes \<noteq> 0"
  shows "\<exists>auc ap w'.
      train_vgae (returning recon) (returning kl) (\<lambda>loss. returning (descend loss)) (returning eval)
          (returning_writer dir) n_nodes m w
        = (Inr (Some auc, Some ap),
           ((\<lambda>m. snd (eval (snd (vgae_step recon kl descend n_nodes m)))) ^^ 200) m, w')
      \<and> event_log w' dir
          = event_log w dir
            @ logged_scalars (vgae_step recon kl descend n_nodes) eval (py_range 200) m"
  unfolding train_vgae_def vgae_loop_as_gae [OF assms]
  using gae_run_200 [of "vgae_step recon kl descend n_nodes" eval dir m
          "py_print (Text ''training vgae'') w"]
  by (simp only: event_log_py_print) blast

lemma train_vgae_files:
  "p \<noteq> log_dir writer \<Longrightarrow>
     files (snd (snd (train_vgae recon kl descend eval writer n_nodes m w))) p = files w p"
  unfolding train_vgae_def by (simp add: vgae_loop_files py_print_def)

subsection \<open>Failures\<close>
































subsection \<open>Fixed numbers of epochs\<close>

lemma counting_epochs:
  "((\<lambda>m. snd (counting_test (snd (counting_step m)))) ^^ n) m = m + n"
  by (induction n) (simp_all add: counting_test_def counting_step_def)

lemma counting_epoch_run: "snd (epoch_run counting_batch_step batches m) = m + length batches"
proof (induction batches arbitrary: m)
  case Nil
  show ?case by simp
next
  case (Cons b batches)
  obtain batch_x batch_y where b: "b = (batch_x, batch_y)" by (cases b)
  obtain losses m' where r: "epoch_run counting_batch_step batches (Suc m) = (losses, m')"
    by (cases "epoch_run counting_batch_step batches (Suc m)")
  have "m' = Suc m + length batches" using Cons.IH [of "Suc m"] by (simp add: r)
  moreover have "counting_batch_step batch_x batch_y m = (1, Suc m)"
    by (simp add: counting_batch_step_def)
  ultimately show ?case by (simp add: b r)
qed

lemma counting_epochs_state:
  "epochs_state counting_batch_step batches n m = m + n * length batches"
  unfolding epochs_state_def by (induction n) (simp_all add: counting_epoch_run)

text \<open>
  Claim C2. Every training loop runs a fixed number of epochs. The notebooks run them on
  their datasets and with library calls that return, which is what the theorem assumes:
  \<open>stargazer_x\<close> holds at least the 8,096 graphs of the training slice (the dataset has
  12,725); in the b2 notebook the forward pass returns one row per node, the masks have
  one entry per node and the validation mask selects a node.

  For \<open>num_epochs \<ge> 0\<close>, \<open>train_stargazer_gnn(gnn, num_epochs)\<close> trains on 126 batches, runs
  exactly \<open>num_epochs\<close> epochs over them (the torch state it leaves is the state after
  \<open>num_epochs\<close> epochs, each of them one training step per batch in order), prints one
  line for each of the epochs \<open>0, ..., num_epochs - 1\<close> and nothing else, and returns
  exactly \<open>num_epochs\<close> losses, each the sum of that epoch's batch losses divided by the
  number of batches. \<open>train(model, optimizer, n_epochs)\<close> runs exactly \<open>n_epochs\<close> epochs
  (the state it leaves is the state after \<open>n_epochs\<close> epochs, each a forward pass and a
  learning step), prints one line for each epoch \<open>0, ..., n_epochs - 1\<close>, then
  \<open>training complete\<close>, and returns the model with \<open>n_epochs\<close> training logits when
  \<open>n_epochs \<ge> 1\<close>; with no epoch its \<open>return\<close> statement reads the unbound \<open>output\<close>.
  \<open>train_gae()\<close> performs exactly 200 training steps and tests, logs loss, AUC and AP for
  each of the epochs \<open>0, ..., 199\<close>, and returns the AUC and AP of the test of epoch 199,
  the last ones it logged.
\<close>

theorem training_loops_fixed_iterations:
  "(0 \<le> num_epochs \<longrightarrow> 8096 \<le> length stargazer_x \<longrightarrow>
      (\<exists>batches_x batches_y.
          get_batches (py_slice stargazer_x 0 8096) (py_slice stargazer_y 0 8096) 64
            = Inr (batches_x, batches_y)
          \<and> length batches_x = 126 \<and> length batches_y = 126
          \<and> train_stargazer_gnn (returning adam) (returning_on step) stargazer_x stargazer_y
                gnn num_epochs w
              = (Inr (mean_batch_losses step (zip batches_x batches_y) (nat num_epochs)
                        (snd (adam gnn))),
                 epochs_state step (zip batches_x batches_y) (nat num_epochs) (snd (adam gnn)),
                 w\<lparr>stdout := stdout w @ map2 EpochLoss (py_range num_epochs)
                      (mean_batch_losses step (zip batches_x batches_y) (nat num_epochs)
                         (snd (adam gnn)))\<rparr>)
          \<and> length (mean_batch_losses step (zip batches_x batches_y) (nat num_epochs)
                       (snd (adam gnn))) = nat num_epochs
          \<and> length (py_range num_epochs) = nat num_epochs))
   \<and> ((\<forall>m. length (fst (fwd m)) = length labels) \<longrightarrow>
       length train_mask = length labels \<longrightarrow> length val_mask = length labels \<longrightarrow>
       True \<in> set val_mask \<longrightarrow>
        (\<exists>out logits lines.
            train \<lparr>set_train = to_train, forward = returning fwd, learn = returning_on lrn,
                   set_eval = to_eval, sage_torch_max = rowwise am\<rparr>
                labels train_mask val_mask model n_epochs v
              = ((if 0 < n_epochs
                  then Inr (((\<lambda>m. snd (snd (snd (sage_epoch to_train fwd lrn to_eval labels
                                                     train_mask m)))) ^^ nat n_epochs) model,
                            out, logits)
                  else Inl UnboundLocalError),
                 ((\<lambda>m. snd (snd (snd (sage_epoch to_train fwd lrn to_eval labels train_mask m))))
                    ^^ nat n_epochs) model,
                 v\<lparr>stdout := stdout v @ lines @ [Text ''training complete'']\<rparr>)
            \<and> length logits = nat n_epochs
            \<and> map printed_epoch lines = map Some (py_range n_epochs)))
   \<and> (\<exists>auc ap u'.
          train_gae (returning gae_step) (returning gae_test) (returning_writer dir) gae u
            = (Inr (Some auc, Some ap),
               ((\<lambda>m. snd (gae_test (snd (gae_step m)))) ^^ 200) gae, u')
          \<and> (auc, ap)
              = fst (gae_test (snd (gae_step
                       (((\<lambda>m. snd (gae_test (snd (gae_step m)))) ^^ 199) gae))))
          \<and> event_log u' dir
              = event_log u dir @ logged_scalars gae_step gae_test (py_range 200) gae
          \<and> map (\<lambda>(tag, v, step). step) (logged_scalars gae_step gae_test (py_range 200) gae)
              = concat (map (\<lambda>e. [e, e, e]) (py_range 200))
          \<and> drop 598 (logged_scalars gae_step gae_test (py_range 200) gae)
              = [(''AUC'', auc, 199), (''AP'', ap, 199)])"
proof (intro conjI impI)
  assume "8096 \<le> length stargazer_x"
  from train_stargazer_gnn_run [OF this, of stargazer_y adam step gnn num_epochs w]
  obtain bx bys where
    g: "get_batches (py_slice stargazer_x 0 8096) (py_slice stargazer_y 0 8096) 64 = Inr (bx, bys)"
    and n: "length bx = 126" "length bys = 126"
    and r: "train_stargazer_gnn (returning adam) (returning_on step) stargazer_x stargazer_y
                gnn num_epochs w
              = (Inr (mean_batch_losses step (zip bx bys) (nat num_epochs) (snd (adam gnn))),
                 epochs_state step (zip bx bys) (nat num_epochs) (snd (adam gnn)),
                 w\<lparr>stdout := stdout w @ map2 EpochLoss (py_range num_epochs)
                      (mean_batch_losses step (zip bx bys) (nat num_epochs) (snd (adam gnn)))\<rparr>)"
    by blast
  show "\<exists>batches_x batches_y.
          get_batches (py_slice stargazer_x 0 8096) (py_slice stargazer_y 0 8096) 64
            = Inr (batches_x, batches_y)
          \<and> length batches_x = 126 \<and> length batches_y = 126
          \<and> train_stargazer_gnn (returning adam) (returning_on step) stargazer_x stargazer_y
                gnn num_epochs w
              = (Inr (mean_batch_losses step (zip batches_x batches_y) (nat num_epochs)
                        (snd (adam gnn))),
                 epochs_state step (zip batches_x batches_y) (nat num_epochs) (snd (adam gnn)),
                 w\<lparr>stdout := stdout w @ map2 EpochLoss (py_range num_epochs)
                      (mean_batch_losses step (zip batches_x batches_y) (nat num_epochs)
                         (snd (adam gnn)))\<rparr>)
          \<and> length (mean_batch_losses step (zip batches_x batches_y) (nat num_epochs)
                       (snd (adam gnn))) = nat num_epochs
          \<and> length (py_range num_epochs) = nat num_epochs"
    by (rule exI [where x = bx], rule exI [where x = bys])
      (simp only: g n r length_mean_batch_losses length_py_range simp_thms)
next
  assume "\<forall>m. length (fst (fwd m)) = length labels"
    and "length train_mask = length labels" and "length val_mask = length labels"
    and "True \<in> set val_mask"
  then show "\<exists>out logits lines.
            train \<lparr>set_train = to_train, forward = returning fwd, learn = returning_on lrn,
                   set_eval = to_eval, sage_torch_max = rowwise am\<rparr>
                labels train_mask val_mask model n_epochs v
              = ((if 0 < n_epochs
                  then Inr (((\<lambda>m. snd (snd (snd (sage_epoch to_train fwd lrn to_eval labels
                                                     train_mask m)))) ^^ nat n_epochs) model,
                            out, logits)
                  else Inl UnboundLocalError),
                 ((\<lambda>m. snd (snd (snd (sage_epoch to_train fwd lrn to_eval labels train_mask m))))
                    ^^ nat n_epochs) model,
                 v\<lparr>stdout := stdout v @ lines @ [Text ''training complete'']\<rparr>)
            \<and> length logits = nat n_epochs
            \<and> map printed_epoch lines = map Some (py_range n_epochs)"
    by (rule train_run)
next
  from train_gae_run [of gae_step gae_test dir gae u]
  show "\<exists>auc ap u'.
          train_gae (returning gae_step) (returning gae_test) (returning_writer dir) gae u
            = (Inr (Some auc, Some ap),
               ((\<lambda>m. snd (gae_test (snd (gae_step m)))) ^^ 200) gae, u')
          \<and> (auc, ap)
              = fst (gae_test (snd (gae_step
                       (((\<lambda>m. snd (gae_test (snd (gae_step m)))) ^^ 199) gae))))
          \<and> event_log u' dir
              = event_log u dir @ logged_scalars gae_step gae_test (py_range 200) gae
          \<and> map (\<lambda>(tag, v, step). step) (logged_scalars gae_step gae_test (py_range 200) gae)
              = concat (map (\<lambda>e. [e, e, e]) (py_range 200))
          \<and> drop 598 (logged_scalars gae_step gae_test (py_range 200) gae)
              = [(''AUC'', auc, 199), (''AP'', ap, 199)]"
    by (simp only: steps_logged_scalars simp_thms)
qed

theorem training_loops_fixed_iterations_witness:
  "(0::int) \<le> 2 \<and> 8096 \<le> length (replicate 12725 ())
   \<and> length (projr (fst (train_stargazer_gnn (returning noting) (returning_on counting_batch_step)
         (replicate 12725 ()) (replicate 12725 1) (0::nat) 2 empty_world))) = 2
   \<and> fst (snd (train_stargazer_gnn (returning noting) (returning_on counting_batch_step)
         (replicate 12725 ()) (replicate 12725 1) (0::nat) 2 empty_world)) = 252
   \<and> length [True, False] = length [0, 1 :: int] \<and> True \<in> set [False, True]
   \<and> fst (snd (train counting_sage_lib [0, 1] [True, False] [False, True] 0 2 empty_world)) = 2
   \<and> fst (train_gae (returning counting_step) (returning counting_test)
             (returning_writer ''./log/run'') 0
             empty_world) = Inr (Some 200, Some 0)
   \<and> length (event_log (snd (snd (train_gae (returning counting_step) (returning counting_test)
         (returning_writer ''./log/run'') 0 empty_world))) ''./log/run'') = 600"
proof -
  have h0: "(0::int) \<le> 2" and h1: "8096 \<le> length (replicate 12725 ())" by simp_all
  have h2: "length (fst (counting_forward m)) = length [0, 1 :: int]" for m
    by (simp add: counting_forward_def)
  have h3: "length [True, False] = length [0, 1 :: int]"
    and h4: "length [False, True] = length [0, 1 :: int]"
    and h5: "True \<in> set [False, True]"
    by simp_all
  note inst = training_loops_fixed_iterations
    [where num_epochs = 2 and stargazer_x = "replicate 12725 ()"
       and stargazer_y = "replicate 12725 1" and adam = noting and step = counting_batch_step
       and gnn = "0::nat" and w = empty_world
       and fwd = counting_forward and labels = "[0, 1]" and train_mask = "[True, False]"
       and val_mask = "[False, True]" and to_train = id and lrn = counting_learn
       and to_eval = id and am = "\<lambda>row. 0" and model = "0::nat" and n_epochs = 2
       and v = empty_world
       and gae_step = counting_step and gae_test = counting_test and dir = "''./log/run''"
       and gae = "0::nat" and u = empty_world]
  from inst [THEN conjunct1, rule_format, OF h0 h1]
  obtain bx :: "unit list list" and bys where
    n: "length bx = 126" "length bys = 126"
    and r: "train_stargazer_gnn (returning noting) (returning_on counting_batch_step)
         (replicate 12725 ()) (replicate 12725 1) (0::nat) 2 empty_world
       = (Inr (mean_batch_losses counting_batch_step (zip bx bys) (nat 2) (snd (noting 0))),
          epochs_state counting_batch_step (zip bx bys) (nat 2) (snd (noting 0)),
          empty_world\<lparr>stdout := stdout empty_world @ map2 EpochLoss (py_range 2)
            (mean_batch_losses counting_batch_step (zip bx bys) (nat 2) (snd (noting 0)))\<rparr>)"
    by blast
  have a: "length (projr (fst (train_stargazer_gnn (returning noting)
         (returning_on counting_batch_step) (replicate 12725 ()) (replicate 12725 1) (0::nat) 2
         empty_world))) = 2"
    unfolding r by (simp add: length_mean_batch_losses)
  have b: "fst (snd (train_stargazer_gnn (returning noting) (returning_on counting_batch_step)
         (replicate 12725 ()) (replicate 12725 1) (0::nat) 2 empty_world)) = 252"
    unfolding r by (simp add: counting_epochs_state n noting_def)
  from inst [THEN conjunct2, THEN conjunct1, rule_format, OF h2 h3 h4 h5]
  obtain out logits lines where
    t: "train \<lparr>set_train = id, forward = returning counting_forward,
               learn = returning_on counting_learn, set_eval = id,
               sage_torch_max = rowwise (\<lambda>row. 0)\<rparr>
           [0, 1] [True, False] [False, True] 0 2 empty_world
       = ((if (0::int) < 2
           then Inr (((\<lambda>m. snd (snd (snd (sage_epoch id counting_forward counting_learn id [0, 1]
                                              [True, False] m)))) ^^ nat 2) 0, out, logits)
           else Inl UnboundLocalError),
          ((\<lambda>m. snd (snd (snd (sage_epoch id counting_forward counting_learn id [0, 1]
                                   [True, False] m)))) ^^ nat 2) 0,
          empty_world\<lparr>stdout := stdout empty_world @ lines @ [Text ''training complete'']\<rparr>)"
    by blast
  have c: "fst (snd (train counting_sage_lib [0, 1] [True, False] [False, True] 0 2 empty_world))
      = 2"
    unfolding counting_sage_lib_def t
    by (simp add: sage_epoch_def counting_forward_def counting_learn_def numeral_2_eq_2)
  from inst [THEN conjunct2, THEN conjunct2]
  obtain auc ap u' where
    g: "train_gae (returning counting_step) (returning counting_test)
             (returning_writer ''./log/run'') 0 empty_world
       = (Inr (Some auc, Some ap),
          ((\<lambda>m. snd (counting_test (snd (counting_step m)))) ^^ 200) 0, u')"
    and res: "(auc, ap) = fst (counting_test (snd (counting_step
                (((\<lambda>m. snd (counting_test (snd (counting_step m)))) ^^ 199) 0))))"
    and lg: "event_log u' ''./log/run'' = event_log empty_world ''./log/run''
          @ logged_scalars counting_step counting_test (py_range 200) 0"
    by blast
  have "(auc, ap) = (200, 0)"
    unfolding res counting_epochs by (simp add: counting_test_def counting_step_def)
  then have d: "fst (train_gae (returning counting_step) (returning counting_test)
             (returning_writer ''./log/run'') 0
             empty_world) = Inr (Some 200, Some 0)"
    unfolding g by simp
  have e: "length (event_log (snd (snd (train_gae (returning counting_step)
         (returning counting_test)
             (returning_writer ''./log/run'') 0 empty_world))) ''./log/run'') = 600"
    unfolding g using lg
    by (simp add: length_logged_scalars length_py_range event_log_def empty_world_def)
  from h0 h1 a b h3 h5 c d e show ?thesis by (intro conjI)
qed

subsection \<open>Files\<close>

lemma plot_files_elsewhere:
  "p \<noteq> outfile \<Longrightarrow> files (snd (plot lib data outfile w)) p = files w p"
  by (simp add: plot_def Let_def split: option.splits sum.splits)

lemma plot_success:
  assumes "fst (plot lib data outfile w) = Inr ()"
  shows "\<exists>edges cs. data_edge_index data = Some edges
      \<and> vertex_colours (draw_colours lib (random_pos w) (n_classes (data_y data))) (data_y data)
          = Inr cs
      \<and> plot lib data outfile w
          = (Inr (), w\<lparr>random_pos := random_pos w + 3 * n_classes (data_y data),
                        files := (files w)(outfile \<mapsto>
                           Rendering \<lparr>vcount = data_num_nodes data, ig_edges = edges,
                                       vs_color = cs\<rparr>),
                        displayed := displayed w
                           @ [\<lparr>vcount = data_num_nodes data, ig_edges = edges,
                                vs_color = cs\<rparr>]\<rparr>)"
  using assms by (auto simp: plot_def Let_def split: option.splits sum.splits)

lemma event_log_file:
  "event_log w p = l \<Longrightarrow> l \<noteq> [] \<Longrightarrow> files w p = Some (EventLog l)"
  by (auto simp: event_log_def split: option.splits file_content.splits)

lemma tags_logged_scalars:
  "map (\<lambda>(tag, v, step). tag) (logged_scalars step eval es m)
     = concat (map (\<lambda>e. [''loss'', ''AUC'', ''AP'']) es)"
  by (induction es arbitrary: m) (simp_all add: Let_def split: prod.splits)

lemma train_gae_log_file:
  "files (snd (snd (train_gae (returning step) (returning eval) (returning_writer dir) m w))) dir
     = Some (EventLog (event_log w dir @ logged_scalars step eval (py_range 200) m))"
proof -
  from train_gae_run [of step eval dir m w]
  obtain auc ap w' where
    r: "train_gae (returning step) (returning eval) (returning_writer dir) m w
          = (Inr (Some auc, Some ap), ((\<lambda>m. snd (eval (snd (step m)))) ^^ 200) m, w')"
    and l: "event_log w' dir
          = event_log w dir @ logged_scalars step eval (py_range 200) m"
    by blast
  have "length (logged_scalars step eval (py_range 200) m) = 600"
    by (simp add: length_logged_scalars length_py_range)
  then have "event_log w dir @ logged_scalars step eval (py_range 200) m \<noteq> []" by auto
  from event_log_file [OF l this] show ?thesis by (simp add: r)
qed

lemma train_vgae_log_file:
  assumes "n_nodes \<noteq> 0"
  shows "files (snd (snd (train_vgae (returning recon) (returning kl)
              (\<lambda>loss. returning (descend loss)) (returning eval) (returning_writer dir)
              n_nodes m w))) dir
     = Some (EventLog (event_log w dir
               @ logged_scalars (vgae_step recon kl descend n_nodes) eval (py_range 200) m))"
proof -
  from train_vgae_run [OF assms, of recon kl descend eval dir m w]
  obtain auc ap w' where
    r: "train_vgae (returning recon) (returning kl) (\<lambda>loss. returning (descend loss))
            (returning eval) (returning_writer dir) n_nodes m w
          = (Inr (Some auc, Some ap),
             ((\<lambda>m. snd (eval (snd (vgae_step recon kl descend n_nodes m)))) ^^ 200) m, w')"
    and l: "event_log w' dir
          = event_log w dir
            @ logged_scalars (vgae_step recon kl descend n_nodes) eval (py_range 200) m"
    by blast
  have "length (logged_scalars (vgae_step recon kl descend n_nodes) eval (py_range 200) m) = 600"
    by (simp add: length_logged_scalars length_py_range)
  then have "event_log w dir
      @ logged_scalars (vgae_step recon kl descend n_nodes) eval (py_range 200) m \<noteq> []"
    by auto
  from event_log_file [OF l this] show ?thesis by (simp add: r)
qed

lemma plot_two_vertices:
  "plot succeeding_plot_lib
      \<lparr>data_num_nodes = 2, data_edge_index = Some [(0, 1)], data_y = Some [0, 1]\<rparr>
      ''./graph.eps'' empty_world
   = (Inr (), empty_world\<lparr>random_pos := 6,
        files := (files empty_world)(''./graph.eps'' \<mapsto>
           Rendering \<lparr>vcount = 2, ig_edges = [(0, 1)], vs_color = [(7, 7, 7), (7, 7, 7)]\<rparr>),
        displayed := [\<lparr>vcount = 2, ig_edges = [(0, 1)], vs_color = [(7, 7, 7), (7, 7, 7)]\<rparr>]\<rparr>)"
  by (simp add: plot_def succeeding_plot_lib_def empty_world_def n_classes_def draw_colours_def
        vertex_colours_def py_get_def Let_def)

text \<open>
  As claim C9 is worded, no run writes a file. \<open>plot\<close> on a graph of two vertices writes
  \<open>./graph.eps\<close>, and \<open>train_gae\<close> leaves an event log in the writer's directory.
\<close>

theorem plot_and_writer_write_files_counterexample:
  "files empty_world ''./graph.eps'' = None
   \<and> files (snd (plot succeeding_plot_lib
        \<lparr>data_num_nodes = 2, data_edge_index = Some [(0, 1)], data_y = Some [0, 1]\<rparr>
        ''./graph.eps'' empty_world)) ''./graph.eps''
     = Some (Rendering \<lparr>vcount = 2, ig_edges = [(0, 1)], vs_color = [(7, 7, 7), (7, 7, 7)]\<rparr>)
   \<and> files empty_world ''./log/run'' = None
   \<and> files (snd (snd (train_gae (returning counting_step) (returning counting_test)
        (returning_writer ''./log/run'') 0 empty_world))) ''./log/run''
     = Some (EventLog (logged_scalars counting_step counting_test (py_range 200) 0))
   \<and> length (logged_scalars counting_step counting_test (py_range 200) 0) = 600"
proof -
  have a: "files empty_world ''./graph.eps'' = None" "files empty_world ''./log/run'' = None"
    by (simp_all add: empty_world_def)
  have b: "files (snd (plot succeeding_plot_lib
        \<lparr>data_num_nodes = 2, data_edge_index = Some [(0, 1)], data_y = Some [0, 1]\<rparr>
        ''./graph.eps'' empty_world)) ''./graph.eps''
     = Some (Rendering \<lparr>vcount = 2, ig_edges = [(0, 1)], vs_color = [(7, 7, 7), (7, 7, 7)]\<rparr>)"
    unfolding plot_two_vertices by simp
  have "event_log empty_world ''./log/run'' = []"
    by (simp add: event_log_def empty_world_def)
  then have c: "files (snd (snd (train_gae (returning counting_step) (returning counting_test)
        (returning_writer ''./log/run'') 0 empty_world))) ''./log/run''
     = Some (EventLog (logged_scalars counting_step counting_test (py_range 200) 0))"
    unfolding train_gae_log_file by simp
  have d: "length (logged_scalars counting_step counting_test (py_range 200) 0) = 600"
    by (simp add: length_logged_scalars length_py_range)
  from a b c d show ?thesis by (intro conjI)
qed

text \<open>
  Claim C9, amended. The functions of the b3 notebook write files. A successful
  \<open>plot(data, outfile)\<close> saves the rendering of the graph of \<open>data\<close> (its vertices, its
  edges, the colours of its labels) to \<open>outfile\<close>, by default \<open>./graph.eps\<close>, and shows that
  rendering; whether it succeeds or fails, it changes no other file. \<open>train_gae\<close> and
  \<open>train_vgae\<close> change no file but the event log of the \<open>SummaryWriter\<close>, whether they
  succeed or fail; when their library calls return, they leave in it, after what it
  held, the loss, the AUC and the AP of each of the epochs \<open>0, ..., 199\<close>, in this order,
  600 scalars in all.
\<close>

theorem files_written_only_by_plot_and_writer:
  "(\<forall>p. p \<noteq> outfile \<longrightarrow> files (snd (plot lib data outfile w)) p = files w p)
   \<and> (fst (plot lib data outfile w) = Inr () \<longrightarrow>
        (\<exists>edges cs. data_edge_index data = Some edges
           \<and> vertex_colours (draw_colours lib (random_pos w) (n_classes (data_y data)))
                 (data_y data) = Inr cs
           \<and> plot lib data outfile w
               = (Inr (), w\<lparr>random_pos := random_pos w + 3 * n_classes (data_y data),
                     files := (files w)(outfile \<mapsto>
                        Rendering \<lparr>vcount = data_num_nodes data, ig_edges = edges,
                                    vs_color = cs\<rparr>),
                     displayed := displayed w
                        @ [\<lparr>vcount = data_num_nodes data, ig_edges = edges,
                             vs_color = cs\<rparr>]\<rparr>)))
   \<and> (\<forall>p. p \<noteq> log_dir writer \<longrightarrow>
          files (snd (snd (train_gae gae_step gae_test writer gae u))) p = files u p)
   \<and> files (snd (snd (train_gae (returning step) (returning eval) (returning_writer dir) gae u))) dir
        = Some (EventLog (event_log u dir @ logged_scalars step eval (py_range 200) gae))
   \<and> (\<forall>p. p \<noteq> log_dir writer \<longrightarrow>
          files (snd (snd (train_vgae vgae_recon vgae_kl vgae_descend vgae_test writer n_nodes
                             vgae u))) p = files u p)
   \<and> (n_nodes \<noteq> 0 \<longrightarrow>
        files (snd (snd (train_vgae (returning recon) (returning kl)
                 (\<lambda>loss. returning (descend loss)) (returning eval) (returning_writer dir)
                 n_nodes vgae u))) dir
          = Some (EventLog (event_log u dir
                    @ logged_scalars (vgae_step recon kl descend n_nodes) eval (py_range 200) vgae)))
   \<and> length (logged_scalars step eval (py_range 200) gae) = 600
   \<and> map (\<lambda>(tag, v, step). tag) (logged_scalars step eval (py_range 200) gae)
        = concat (map (\<lambda>e. [''loss'', ''AUC'', ''AP'']) (py_range 200))
   \<and> map (\<lambda>(tag, v, step). step) (logged_scalars step eval (py_range 200) gae)
        = concat (map (\<lambda>e. [e, e, e]) (py_range 200))"
proof (intro conjI allI impI)
  fix p assume "p \<noteq> outfile"
  then show "files (snd (plot lib data outfile w)) p = files w p" by (rule plot_files_elsewhere)
next
  assume "fst (plot lib data outfile w) = Inr ()"
  then show "\<exists>edges cs. data_edge_index data = Some edges
           \<and> vertex_colours (draw_colours lib (random_pos w) (n_classes (data_y data)))
                 (data_y data) = Inr cs
           \<and> plot lib data outfile w
               = (Inr (), w\<lparr>random_pos := random_pos w + 3 * n_classes (data_y data),
                     files := (files w)(outfile \<mapsto>
                        Rendering \<lparr>vcount = data_num_nodes data, ig_edges = edges,
                                    vs_color = cs\<rparr>),
                     displayed := displayed w
                        @ [\<lparr>vcount = data_num_nodes data, ig_edges = edges,
                             vs_color = cs\<rparr>]\<rparr>)"
    by (rule plot_success)
next
  fix p assume "p \<noteq> log_dir writer"
  then show "files (snd (snd (train_gae gae_step gae_test writer gae u))) p = files u p"
    by (rule train_gae_files)
next
  show "files (snd (snd (train_gae (returning step) (returning eval) (returning_writer dir) gae u))) dir
        = Some (EventLog (event_log u dir @ logged_scalars step eval (py_range 200) gae))"
    by (rule train_gae_log_file)
next
  fix p assume "p \<noteq> log_dir writer"
  then show "files (snd (snd (train_vgae vgae_recon vgae_kl vgae_descend vgae_test writer n_nodes
                             vgae u))) p = files u p"
    by (rule train_vgae_files)
next
  assume "n_nodes \<noteq> 0"
  then show "files (snd (snd (train_vgae (returning recon) (returning kl)
                 (\<lambda>loss. returning (descend loss)) (returning eval) (returning_writer dir)
                 n_nodes vgae u))) dir
          = Some (EventLog (event_log u dir
                    @ logged_scalars (vgae_step recon kl descend n_nodes) eval (py_range 200) vgae))"
    by (rule train_vgae_log_file)
next
  show "length (logged_scalars step eval (py_range 200) gae) = 600"
    by (simp add: length_logged_scalars length_py_range)
next
  show "map (\<lambda>(tag, v, step). tag) (logged_scalars step eval (py_range 200) gae)
        = concat (map (\<lambda>e. [''loss'', ''AUC'', ''AP'']) (py_range 200))"
    by (rule tags_logged_scalars)
next
  show "map (\<lambda>(tag, v, step). step) (logged_scalars step eval (py_range 200) gae)
        = concat (map (\<lambda>e. [e, e, e]) (py_range 200))"
    by (rule steps_logged_scalars)
qed

theorem files_written_only_by_plot_and_writer_witness:
  "''./log/run'' \<noteq> ''./graph.eps''
   \<and> files (snd (plot succeeding_plot_lib
        \<lparr>data_num_nodes = 2, data_edge_index = Some [(0, 1)], data_y = Some [0, 1]\<rparr>
        ''./graph.eps'' empty_world)) ''./log/run'' = None
   \<and> fst (plot succeeding_plot_lib
        \<lparr>data_num_nodes = 2, data_edge_index = Some [(0, 1)], data_y = Some [0, 1]\<rparr>
        ''./graph.eps'' empty_world) = Inr ()
   \<and> files (snd (plot succeeding_plot_lib
        \<lparr>data_num_nodes = 2, data_edge_index = Some [(0, 1)], data_y = Some [0, 1]\<rparr>
        ''./graph.eps'' empty_world)) ''./graph.eps''
      = Some (Rendering \<lparr>vcount = 2, ig_edges = [(0, 1)], vs_color = [(7, 7, 7), (7, 7, 7)]\<rparr>)
   \<and> files (snd (snd (train_gae (returning counting_step) (failing ''test'')
        (failing_writer ''./log/run'' ''AP'') (0::nat) empty_world))) ''./graph.eps'' = None
   \<and> (2::nat) \<noteq> 0
   \<and> files (snd (snd (train_vgae (returning counting_step) (returning counting_step)
        (\<lambda>loss. returning (counting_descend loss)) (returning counting_test)
        (returning_writer ''./log/run'') 2 (0::nat) empty_world))) ''./log/run''
      = Some (EventLog (logged_scalars
           (vgae_step counting_step counting_step counting_descend 2) counting_test
           (py_range 200) 0))"
proof -
  let ?data = "\<lparr>data_num_nodes = 2, data_edge_index = Some [(0, 1)], data_y = Some [0, 1]\<rparr>"
  note inst = files_written_only_by_plot_and_writer
    [where outfile = "''./graph.eps''" and lib = succeeding_plot_lib and data = ?data
       and w = empty_world and writer = "failing_writer ''./log/run'' ''AP''"
       and dir = "''./log/run''"
       and gae_step = "returning counting_step" and gae_test = "failing ''test''"
       and gae = "0::nat" and u = empty_world
       and recon = counting_step and kl = counting_step and descend = counting_descend
       and eval = counting_test and n_nodes = 2 and vgae = "0::nat"]
  have ne: "''./log/run'' \<noteq> ''./graph.eps''" by simp
  have ne': "''./graph.eps'' \<noteq> log_dir (failing_writer ''./log/run'' ''AP'')"
    by (simp add: failing_writer_def)
  have n2: "(2::nat) \<noteq> 0" by simp
  have ok: "fst (plot succeeding_plot_lib ?data ''./graph.eps'' empty_world) = Inr ()"
    by (simp add: plot_two_vertices)
  have fe: "files empty_world p = None" for p by (simp add: empty_world_def)
  have le: "event_log empty_world ''./log/run'' = []"
    by (simp add: event_log_def empty_world_def)
  from inst [THEN conjunct1, rule_format, OF ne]
  have a: "files (snd (plot succeeding_plot_lib ?data ''./graph.eps'' empty_world))
      ''./log/run'' = None"
    by (simp only: fe)
  from inst [THEN conjunct2, THEN conjunct1, rule_format, OF ok]
  obtain edges cs where
    "data_edge_index ?data = Some edges"
    and "vertex_colours (draw_colours succeeding_plot_lib (random_pos empty_world)
           (n_classes (data_y ?data))) (data_y ?data) = Inr cs"
    and p: "plot succeeding_plot_lib ?data ''./graph.eps'' empty_world
        = (Inr (), empty_world\<lparr>random_pos := random_pos empty_world + 3 * n_classes (data_y ?data),
             files := (files empty_world)(''./graph.eps'' \<mapsto>
                Rendering \<lparr>vcount = data_num_nodes ?data, ig_edges = edges, vs_color = cs\<rparr>),
             displayed := displayed empty_world
                @ [\<lparr>vcount = data_num_nodes ?data, ig_edges = edges, vs_color = cs\<rparr>]\<rparr>)"
    by blast
  then have "edges = [(0, 1)]" and "cs = [(7, 7, 7), (7, 7, 7)]"
    by (simp_all add: succeeding_plot_lib_def empty_world_def n_classes_def draw_colours_def
          vertex_colours_def py_get_def)
  then have b: "files (snd (plot succeeding_plot_lib ?data ''./graph.eps'' empty_world))
      ''./graph.eps''
      = Some (Rendering \<lparr>vcount = 2, ig_edges = [(0, 1)], vs_color = [(7, 7, 7), (7, 7, 7)]\<rparr>)"
    unfolding p by simp
  from inst [THEN conjunct2, THEN conjunct2, THEN conjunct1, rule_format, OF ne']
  have c: "files (snd (snd (train_gae (returning counting_step) (failing ''test'')
        (failing_writer ''./log/run'' ''AP'') (0::nat) empty_world))) ''./graph.eps'' = None"
    by (simp only: fe)
  from inst [THEN conjunct2, THEN conjunct2, THEN conjunct2, THEN conjunct2, THEN conjunct2,
             THEN conjunct1, rule_format, OF n2]
  have d: "files (snd (snd (train_vgae (returning counting_step) (returning counting_step)
        (\<lambda>loss. returning (counting_descend loss)) (returning counting_test)
        (returning_writer ''./log/run'') 2 (0::nat) empty_world))) ''./log/run''
      = Some (EventLog (logged_scalars
           (vgae_step counting_step counting_step counting_descend 2) counting_test
           (py_range 200) 0))"
    by (simp add: le)
  from ne a ok b c n2 d show ?thesis by (intro conjI)
qed

subsection \<open>Successive runs\<close>

lemma train_gae_result:
  "fst (train_gae (returning step) (returning eval) (returning_writer dir) m w)
     = Inr (Some (fst (fst (eval (snd (step (((\<lambda>m. snd (eval (snd (step m)))) ^^ 199) m)))))),
            Some (snd (fst (eval (snd (step (((\<lambda>m. snd (eval (snd (step m)))) ^^ 199) m)))))))"
proof -
  from train_gae_run [of step eval dir m w]
  obtain auc ap w' where
    r: "train_gae (returning step) (returning eval) (returning_writer dir) m w
          = (Inr (Some auc, Some ap), ((\<lambda>m. snd (eval (snd (step m)))) ^^ 200) m, w')"
    and res: "(auc, ap)
          = fst (eval (snd (step (((\<lambda>m. snd (eval (snd (step m)))) ^^ 199) m))))"
    by blast
  show ?thesis unfolding r res [symmetric] by simp
qed

lemma counting_train_gae:
  "fst (train_gae (returning counting_step) (returning counting_test) (returning_writer dir) m w)
     = Inr (Some (real m + 200), Some 0)"
  unfolding train_gae_result counting_epochs by (simp add: counting_test_def counting_step_def)

text \<open>
  Claim C5. The result of a training and evaluation run is not a function of the dataset
  alone: it is a function of the torch state (weights, optimizer, random generator),
  which a run changes and never resets. A second call of \<open>train_gae\<close> continues from the
  state the first one left, 400 steps from the start instead of 200; for a library whose
  test score depends on that state the two calls return different AUC values (200 and
  400 for the counting stand-in). In training mode \<open>VGAE.encode\<close> adds noise drawn at the
  current generator state, so two generator states give two different encodings of
  the same input.
\<close>

theorem successive_runs_differ:
  "fst (snd (train_gae (returning step) (returning eval) (returning_writer dir)
               (fst (snd (train_gae (returning step) (returning eval) (returning_writer dir) m w)))
               (snd (snd (train_gae (returning step) (returning eval) (returning_writer dir) m w)))))
     = ((\<lambda>m. snd (eval (snd (step m)))) ^^ 400) m
   \<and> fst (train_gae (returning counting_step) (returning counting_test) (returning_writer dir) 0 w)
       = Inr (Some 200, Some 0)
   \<and> fst (train_gae (returning counting_step) (returning counting_test) (returning_writer dir)
            (fst (snd (train_gae (returning counting_step) (returning counting_test) (returning_writer dir) 0 w)))
            (snd (snd (train_gae (returning counting_step) (returning counting_test) (returning_writer dir) 0 w))))
       = Inr (Some 400, Some 0)
   \<and> fst (VGAE_encode counter_randn encoder VGAE_init args rng)
       = t_add (fst (encoder args))
           (t_mul (fst (counter_randn rng (clamp_max (snd (encoder args)) MAX_LOGVAR)))
              (t_exp (clamp_max (snd (encoder args)) MAX_LOGVAR)))
   \<and> fst (VGAE_encode counter_randn (\<lambda>u. ([[0]], [[0]])) VGAE_init () 0) = [[0]]
   \<and> fst (VGAE_encode counter_randn (\<lambda>u. ([[0]], [[0]])) VGAE_init () 1) = [[1]]"
proof (intro conjI)
  let ?E = "\<lambda>m. snd (eval (snd (step m)))"
  obtain r w' where r1: "train_gae (returning step) (returning eval) (returning_writer dir) m w
      = (r, (?E ^^ 200) m, w')"
    using train_gae_run [of step eval dir m w] by blast
  obtain r' w'' where r2: "train_gae (returning step) (returning eval) (returning_writer dir) ((?E ^^ 200) m) w'
      = (r', (?E ^^ 200) ((?E ^^ 200) m), w'')"
    using train_gae_run [of step eval dir "(?E ^^ 200) m" w'] by blast
  have "(?E ^^ (200 + 200)) m = (?E ^^ 200) ((?E ^^ 200) m)"
    by (simp only: funpow_add o_apply)
  then have "(?E ^^ 200) ((?E ^^ 200) m) = (?E ^^ 400) m" by simp
  then show "fst (snd (train_gae (returning step) (returning eval) (returning_writer dir)
               (fst (snd (train_gae (returning step) (returning eval) (returning_writer dir) m w)))
               (snd (snd (train_gae (returning step) (returning eval) (returning_writer dir) m w)))))
     = (?E ^^ 400) m"
    by (simp add: r1 r2)
next
  show "fst (train_gae (returning counting_step) (returning counting_test) (returning_writer dir) 0 w)
      = Inr (Some 200, Some 0)"
    by (simp add: counting_train_gae)
next
  obtain r w' where r1: "train_gae (returning counting_step) (returning counting_test) (returning_writer dir) 0 w
      = (r, ((\<lambda>m. snd (counting_test (snd (counting_step m)))) ^^ 200) 0, w')"
    using train_gae_run [of counting_step counting_test dir 0 w] by blast
  show "fst (train_gae (returning counting_step) (returning counting_test) (returning_writer dir)
            (fst (snd (train_gae (returning counting_step) (returning counting_test) (returning_writer dir) 0 w)))
            (snd (snd (train_gae (returning counting_step) (returning counting_test) (returning_writer dir) 0 w))))
       = Inr (Some 400, Some 0)"
    by (simp add: r1 counting_epochs counting_train_gae)
next
  show "fst (VGAE_encode counter_randn encoder VGAE_init args rng)
       = t_add (fst (encoder args))
           (t_mul (fst (counter_randn rng (clamp_max (snd (encoder args)) MAX_LOGVAR)))
              (t_exp (clamp_max (snd (encoder args)) MAX_LOGVAR)))"
    by (simp add: encode_train VGAE_init_def)
next
  show "fst (VGAE_encode counter_randn (\<lambda>u. ([[0]], [[0]])) VGAE_init () 0) = [[0]]"
    by (simp add: encode_train VGAE_init_def counter_randn_def t_add_def t_mul_def t_exp_def
          clamp_max_def MAX_LOGVAR_def)
next
  show "fst (VGAE_encode counter_randn (\<lambda>u. ([[0]], [[0]])) VGAE_init () 1) = [[1]]"
    by (simp add: encode_train VGAE_init_def counter_randn_def t_add_def t_mul_def t_exp_def
          clamp_max_def MAX_LOGVAR_def)
qed

end
